theory Spec2Isabelle
  imports Complex_Main "HOL-Library.Log_Nat"
begin

section \<open>Data model\<close>

text \<open>
  The rows follow the tables of the migration \<^verbatim>\<open>20250722090456_sunny_night.sql\<close> and the
  TypeScript interfaces of the pages. Identifiers are the uuid strings the client handles;
  instants are milliseconds since the epoch, as \<^verbatim>\<open>Date.getTime()\<close> returns them. Columns no
  modelled operation reads or writes (bio, skills, avatar, links, most \<^verbatim>\<open>created_at\<close>) are
  left out of the rows. The status \<^verbatim>\<open>pending\<close> of a friendship is written \<open>Requested\<close>,
  apart from the status \<open>Pending\<close> of a task.
\<close>

type_synonym uuid = string

datatype priority_level = High | Moderate | Low

datatype task_status = Pending | In_progress | Completed

datatype friendship_status = Requested | Accepted | Declined

datatype notification_type = Friend_request | Task_deadline | Chat | Project

record profile =
  pr_id :: uuid
  pr_username :: string
  pr_email :: string

record project =
  pj_id :: uuid
  pj_name :: string
  pj_progress :: int
  pj_creator_id :: uuid
  pj_team_members :: "uuid list"

record task =
  t_id :: uuid
  t_title :: string
  t_description :: string
  t_priority :: priority_level
  t_status :: task_status
  t_deadline :: int
  t_assigned_to :: uuid
  t_project_id :: "uuid option"
  t_user_id :: uuid

record friendship =
  f_id :: uuid
  f_requester_id :: uuid
  f_addressee_id :: uuid
  f_status :: friendship_status

record message =
  m_id :: uuid
  m_sender_id :: uuid
  m_receiver_id :: uuid
  m_content :: string
  m_read :: bool
  m_created_at :: int

record notification =
  n_user_id :: uuid
  n_title :: string
  n_message :: string
  n_type :: notification_type
  n_read :: bool

record database =
  profiles :: "profile list"
  projects :: "project list"
  tasks :: "task list"
  friendships :: "friendship list"
  messages :: "message list"
  notifications :: "notification list"

text \<open>
  A store call answers with rows or with an error object; the client never sees an
  exception from it (the query builder resolves to \<^verbatim>\<open>{ data, error }\<close>). \<open>NotFound\<close> is
  the code \<^verbatim>\<open>PGRST116\<close> of a \<^verbatim>\<open>.single()\<close> that did not find exactly one row.
\<close>

datatype error = NotFound | PermissionDenied | ConstraintViolation | TransportError

datatype toast = Toast_success string | Toast_error string

record 's outcome =
  out_db :: database
  out_state :: 's
  out_toasts :: "toast list"

section \<open>The remote store\<close>

text \<open>
  Every call carries a fault the environment may inject (\<open>Some e\<close>: the request fails
  with \<open>e\<close> and changes nothing). Otherwise the table's constraints and the row level
  security policies of the migration decide. A rejected \<^verbatim>\<open>WITH CHECK\<close> or constraint makes
  an insert fail; a \<^verbatim>\<open>USING\<close> policy silently narrows the rows an update or delete touches.
\<close>

definition store_insert ::
  "error option \<Rightarrow> bool \<Rightarrow> bool \<Rightarrow> 'r \<Rightarrow> 'r list \<Rightarrow> error + 'r list" where
  "store_insert fault constraints_ok check_ok row rows =
     (case fault of
        Some e \<Rightarrow> Inl e
      | None \<Rightarrow>
          if \<not> check_ok then Inl PermissionDenied
          else if \<not> constraints_ok then Inl ConstraintViolation
          else Inr (rows @ [row]))"

definition store_select :: "('r \<Rightarrow> bool) \<Rightarrow> ('r \<Rightarrow> bool) \<Rightarrow> 'r list \<Rightarrow> 'r list" where
  "store_select using flt rows = filter (\<lambda>r. using r \<and> flt r) rows"

definition store_update ::
  "error option \<Rightarrow> ('r \<Rightarrow> bool) \<Rightarrow> ('r \<Rightarrow> bool) \<Rightarrow> ('r \<Rightarrow> 'r) \<Rightarrow> 'r list \<Rightarrow> error + 'r list" where
  "store_update fault using flt patch rows =
     (case fault of
        Some e \<Rightarrow> Inl e
      | None \<Rightarrow> Inr (map (\<lambda>r. if using r \<and> flt r then patch r else r) rows))"

definition store_delete ::
  "error option \<Rightarrow> ('r \<Rightarrow> bool) \<Rightarrow> ('r \<Rightarrow> bool) \<Rightarrow> 'r list \<Rightarrow> error + 'r list" where
  "store_delete fault using flt rows =
     (case fault of
        Some e \<Rightarrow> Inl e
      | None \<Rightarrow> Inr (filter (\<lambda>r. \<not> (using r \<and> flt r)) rows))"

definition single :: "'r list \<Rightarrow> error + 'r" where
  "single rows = (case rows of [r] \<Rightarrow> Inr r | _ \<Rightarrow> Inl NotFound)"

definition profile_exists :: "database \<Rightarrow> uuid \<Rightarrow> bool" where
  "profile_exists db u = (u \<in> pr_id ` set (profiles db))"

subsection \<open>Row level security policies\<close>

text \<open>
  One predicate per table and command, for the authenticated user \<open>uid\<close>. An update or a
  delete also needs the row to be visible, so its predicate is the conjunction of the
  SELECT policy and the command's own. The migration enables row level security on
  \<^verbatim>\<open>friendships\<close> and creates policies for SELECT, INSERT and UPDATE only: no policy
  admits a DELETE, so no row qualifies for one.
\<close>

definition profiles_select_policy :: "uuid \<Rightarrow> profile \<Rightarrow> bool" where
  "profiles_select_policy uid p = (uid = pr_id p \<or> True)"

definition profiles_insert_check :: "uuid \<Rightarrow> profile \<Rightarrow> bool" where
  "profiles_insert_check uid p = (uid = pr_id p)"

definition projects_select_policy :: "uuid \<Rightarrow> project \<Rightarrow> bool" where
  "projects_select_policy uid p = (pj_creator_id p = uid \<or> uid \<in> set (pj_team_members p))"

definition projects_update_policy :: "uuid \<Rightarrow> project \<Rightarrow> bool" where
  "projects_update_policy uid p = (projects_select_policy uid p \<and> pj_creator_id p = uid)"

definition tasks_select_policy :: "uuid \<Rightarrow> task \<Rightarrow> bool" where
  "tasks_select_policy uid t = (t_user_id t = uid \<or> t_assigned_to t = uid)"

definition tasks_insert_check :: "uuid \<Rightarrow> task \<Rightarrow> bool" where
  "tasks_insert_check uid t = (t_user_id t = uid)"

definition tasks_update_policy :: "uuid \<Rightarrow> task \<Rightarrow> bool" where
  "tasks_update_policy uid t =
     (tasks_select_policy uid t \<and> (t_user_id t = uid \<or> t_assigned_to t = uid))"

definition friendships_select_policy :: "uuid \<Rightarrow> friendship \<Rightarrow> bool" where
  "friendships_select_policy uid f = (f_requester_id f = uid \<or> f_addressee_id f = uid)"

definition friendships_insert_check :: "uuid \<Rightarrow> friendship \<Rightarrow> bool" where
  "friendships_insert_check uid f = (f_requester_id f = uid)"

definition friendships_delete_policy :: "uuid \<Rightarrow> friendship \<Rightarrow> bool" where
  "friendships_delete_policy uid f = (friendships_select_policy uid f \<and> False)"

definition messages_select_policy :: "uuid \<Rightarrow> message \<Rightarrow> bool" where
  "messages_select_policy uid m = (m_sender_id m = uid \<or> m_receiver_id m = uid)"

definition messages_insert_check :: "uuid \<Rightarrow> message \<Rightarrow> bool" where
  "messages_insert_check uid m = (m_sender_id m = uid)"

definition messages_update_policy :: "uuid \<Rightarrow> message \<Rightarrow> bool" where
  "messages_update_policy uid m = (messages_select_policy uid m \<and> m_receiver_id m = uid)"

definition notifications_insert_check :: "uuid \<Rightarrow> notification \<Rightarrow> bool" where
  "notifications_insert_check uid n = True"

subsection \<open>Table constraints\<close>

text \<open>
  The foreign keys, \<^verbatim>\<open>UNIQUE\<close> and \<^verbatim>\<open>CHECK\<close> clauses of the migration, as the conditions an
  inserted row has to meet.
\<close>

definition profiles_constraints :: "database \<Rightarrow> profile \<Rightarrow> bool" where
  "profiles_constraints db p =
     (pr_id p \<notin> pr_id ` set (profiles db) \<and> pr_username p \<notin> pr_username ` set (profiles db))"

definition tasks_constraints :: "database \<Rightarrow> task \<Rightarrow> bool" where
  "tasks_constraints db t =
     (profile_exists db (t_assigned_to t) \<and> profile_exists db (t_user_id t) \<and>
      (case t_project_id t of None \<Rightarrow> True | Some p \<Rightarrow> p \<in> pj_id ` set (projects db)))"

definition friendships_constraints :: "database \<Rightarrow> friendship \<Rightarrow> bool" where
  "friendships_constraints db f =
     (profile_exists db (f_requester_id f) \<and> profile_exists db (f_addressee_id f) \<and>
      f_requester_id f \<noteq> f_addressee_id f \<and>
      (f_requester_id f, f_addressee_id f) \<notin>
        (\<lambda>g. (f_requester_id g, f_addressee_id g)) ` set (friendships db))"

definition messages_constraints :: "database \<Rightarrow> message \<Rightarrow> bool" where
  "messages_constraints db m =
     (profile_exists db (m_sender_id m) \<and> profile_exists db (m_receiver_id m) \<and>
      m_sender_id m \<noteq> m_receiver_id m)"

definition notifications_constraints :: "database \<Rightarrow> notification \<Rightarrow> bool" where
  "notifications_constraints db n = profile_exists db (n_user_id n)"

definition progress_check :: "int \<Rightarrow> bool" where
  "progress_check p = (0 \<le> p \<and> p \<le> 100)"

text \<open>
  The constraints as an invariant of a stored database: primary keys of profiles, the
  foreign keys of friendships and their \<^verbatim>\<open>CHECK(requester_id != addressee_id)\<close>.
\<close>

definition friendships_wf :: "database \<Rightarrow> bool" where
  "friendships_wf db =
     (distinct (map pr_id (profiles db)) \<and>
      list_all (\<lambda>f. profile_exists db (f_requester_id f) \<and> profile_exists db (f_addressee_id f) \<and>
                    f_requester_id f \<noteq> f_addressee_id f) (friendships db))"

section \<open>Friends page and chat\<close>

text \<open>
  The state of the Friends page the modelled operations touch. An embedded profile is
  the joined row of the foreign key, or null when the store returns none.
\<close>

record friends_page =
  fp_friends :: "profile option list"
  fp_searchResults :: "profile list"

definition embed_profile :: "database \<Rightarrow> uuid \<Rightarrow> uuid \<Rightarrow> profile option" where
  "embed_profile db uid x =
     find (\<lambda>p. pr_id p = x) (store_select (profiles_select_policy uid) (\<lambda>p. True) (profiles db))"

text \<open>
  \<^verbatim>\<open>fetchFriends\<close> (Friends.tsx, Chat and Projects carry the same query): the rows with
  \<^verbatim>\<open>(requester_id = user OR addressee_id = user) AND status = accepted\<close>, each mapped to the
  endpoint chosen by \<^verbatim>\<open>friendship.requester_id === user.id ? addressee : requester\<close>.
\<close>

definition friendsList :: "database \<Rightarrow> uuid \<Rightarrow> profile option list" where
  "friendsList db uid =
     map (\<lambda>f. if f_requester_id f = uid then embed_profile db uid (f_addressee_id f)
               else embed_profile db uid (f_requester_id f))
       (store_select (friendships_select_policy uid)
          (\<lambda>f. (f_requester_id f = uid \<or> f_addressee_id f = uid) \<and> f_status f = Accepted)
          (friendships db))"

definition fetchFriends ::
  "error option \<Rightarrow> database \<Rightarrow> uuid \<Rightarrow> friends_page \<Rightarrow> friends_page outcome" where
  "fetchFriends fault db uid st =
     (case fault of
        Some e \<Rightarrow> \<lparr>out_db = db, out_state = st, out_toasts = [Toast_error ''Failed to fetch friends'']\<rparr>
      | None \<Rightarrow> \<lparr>out_db = db, out_state = st\<lparr>fp_friends := friendsList db uid\<rparr>, out_toasts = []\<rparr>)"

text \<open>
  \<^verbatim>\<open>removeFriend\<close>: one DELETE whose filter is
  \<^verbatim>\<open>or(and(requester_id.eq.user, addressee_id.eq.friend), and(requester_id.eq.friend, addressee_id.eq.user))\<close>.
  An error is thrown to the catch block; otherwise the friend leaves the local list
  (\<^verbatim>\<open>f.id\<close> of a null entry throws into the same catch block) and a success toast is shown.
\<close>

definition removeFriend_filter :: "uuid \<Rightarrow> uuid \<Rightarrow> friendship \<Rightarrow> bool" where
  "removeFriend_filter uid friendId f =
     ((f_requester_id f = uid \<and> f_addressee_id f = friendId) \<or>
      (f_requester_id f = friendId \<and> f_addressee_id f = uid))"

definition removeFriend ::
  "error option \<Rightarrow> database \<Rightarrow> uuid \<Rightarrow> friends_page \<Rightarrow> uuid \<Rightarrow> friends_page outcome" where
  "removeFriend fault db uid st friendId =
     (case store_delete fault (friendships_delete_policy uid) (removeFriend_filter uid friendId)
             (friendships db) of
        Inl e \<Rightarrow> \<lparr>out_db = db, out_state = st, out_toasts = [Toast_error ''Failed to remove friend'']\<rparr>
      | Inr rows \<Rightarrow>
          if None \<in> set (fp_friends st)
          then \<lparr>out_db = db\<lparr>friendships := rows\<rparr>, out_state = st,
                out_toasts = [Toast_error ''Failed to remove friend'']\<rparr>
          else \<lparr>out_db = db\<lparr>friendships := rows\<rparr>,
                out_state = st\<lparr>fp_friends := filter (\<lambda>f. map_option pr_id f \<noteq> Some friendId) (fp_friends st)\<rparr>,
                out_toasts = [Toast_success ''Friend removed'']\<rparr>)"

text \<open>
  \<^verbatim>\<open>markMessagesAsRead\<close> (Chat): nothing without a selected friend; otherwise one UPDATE
  setting \<^verbatim>\<open>read\<close> on the rows with \<^verbatim>\<open>sender_id = friend\<close>, \<^verbatim>\<open>receiver_id = user\<close>,
  \<^verbatim>\<open>read = false\<close>. The answer of the store is not inspected.
\<close>

definition markMessagesAsRead :: "error option \<Rightarrow> database \<Rightarrow> uuid \<Rightarrow> uuid option \<Rightarrow> database" where
  "markMessagesAsRead fault db uid selectedFriend =
     (case selectedFriend of
        None \<Rightarrow> db
      | Some friend \<Rightarrow>
          (case store_update fault (messages_update_policy uid)
                  (\<lambda>m. m_sender_id m = friend \<and> m_receiver_id m = uid \<and> m_read m = False)
                  (\<lambda>m. m\<lparr>m_read := True\<rparr>) (messages db) of
             Inl e \<Rightarrow> db
           | Inr rows \<Rightarrow> db\<lparr>messages := rows\<rparr>))"

text \<open>
  What the friend list of a viewer is to be: one entry for each accepted friendship row
  the viewer is an endpoint of, in the order of the table, naming the other endpoint.
\<close>

definition accepted_rows :: "database \<Rightarrow> uuid \<Rightarrow> friendship list" where
  "accepted_rows db u =
     filter (\<lambda>f. f_status f = Accepted \<and> (f_requester_id f = u \<or> f_addressee_id f = u))
       (friendships db)"

definition counterpart :: "uuid \<Rightarrow> friendship \<Rightarrow> uuid" where
  "counterpart u f = (if f_requester_id f = u then f_addressee_id f else f_requester_id f)"

section \<open>Notifications and the mutations that trigger them\<close>

text \<open>
  Every notification insert of the client has the same shape: the builder is awaited and
  its answer dropped, so a rejected insert leaves the tables as they were and the caller
  goes on.
\<close>

definition insert_notification :: "error option \<Rightarrow> database \<Rightarrow> uuid \<Rightarrow> notification \<Rightarrow> database" where
  "insert_notification fault db uid n =
     (case store_insert fault (notifications_constraints db n) (notifications_insert_check uid n) n
             (notifications db) of
        Inl e \<Rightarrow> db
      | Inr rows \<Rightarrow> db\<lparr>notifications := rows\<rparr>)"

text \<open>
  A \<open>string\<close> holds the UTF-8 bytes of the JavaScript string. \<^verbatim>\<open>String.prototype.trim\<close>
  strips the white space and line terminator code points from both ends: U+0009 to
  U+000D, U+0020, U+00A0, U+1680, U+2000 to U+200A, U+2028, U+2029, U+202F, U+205F,
  U+3000 and U+FEFF, listed here by their encodings. \<open>white_len\<close> is the length of the
  one a string starts with, \<open>0\<close> if it starts with none.
\<close>

definition white_space :: "string list" where
  "white_space =
     [[CHR 0x09], [CHR 0x0A], [CHR 0x0B], [CHR 0x0C], [CHR 0x0D], [CHR 0x20],
      [CHR 0xC2, CHR 0xA0],
      [CHR 0xE1, CHR 0x9A, CHR 0x80],
      [CHR 0xE2, CHR 0x80, CHR 0x80], [CHR 0xE2, CHR 0x80, CHR 0x81],
      [CHR 0xE2, CHR 0x80, CHR 0x82], [CHR 0xE2, CHR 0x80, CHR 0x83],
      [CHR 0xE2, CHR 0x80, CHR 0x84], [CHR 0xE2, CHR 0x80, CHR 0x85],
      [CHR 0xE2, CHR 0x80, CHR 0x86], [CHR 0xE2, CHR 0x80, CHR 0x87],
      [CHR 0xE2, CHR 0x80, CHR 0x88], [CHR 0xE2, CHR 0x80, CHR 0x89],
      [CHR 0xE2, CHR 0x80, CHR 0x8A],
      [CHR 0xE2, CHR 0x80, CHR 0xA8], [CHR 0xE2, CHR 0x80, CHR 0xA9],
      [CHR 0xE2, CHR 0x80, CHR 0xAF],
      [CHR 0xE2, CHR 0x81, CHR 0x9F],
      [CHR 0xE3, CHR 0x80, CHR 0x80],
      [CHR 0xEF, CHR 0xBB, CHR 0xBF]]"

definition white_len :: "string list \<Rightarrow> string \<Rightarrow> nat" where
  "white_len ws s =
     (case find (\<lambda>w. w \<noteq> [] \<and> take (length w) s = w) ws of
        None \<Rightarrow> 0
      | Some w \<Rightarrow> length w)"

function strip :: "string list \<Rightarrow> string \<Rightarrow> string" where
  "strip ws s = (if white_len ws s = 0 then s else strip ws (drop (white_len ws s) s))"
  by pat_completeness auto
termination
proof (relation "measure (\<lambda>(ws, s). length s)")
  show "wf (measure (\<lambda>(ws, s). length s))" by simp
next
  fix ws :: "string list" and s :: string
  assume n: "white_len ws s \<noteq> 0"
  then obtain w where "find (\<lambda>w. w \<noteq> [] \<and> take (length w) s = w) ws = Some w"
    by (auto simp: white_len_def split: option.splits)
  then have "w \<noteq> []" "take (length w) s = w" by (auto simp: find_Some_iff)
  then have "s \<noteq> []" by auto
  then show "((ws, drop (white_len ws s) s), (ws, s)) \<in> measure (\<lambda>(ws, s). length s)"
    using n by simp
qed

definition trim :: "string \<Rightarrow> string" where
  "trim s = rev (strip (map rev white_space) (rev (strip white_space s)))"

text \<open>The signed-in identity of the auth provider, as far as the client reads it.\<close>

record auth_user =
  au_id :: uuid
  au_email :: "string option"
  au_username :: "string option"

record chat_page =
  cp_selectedFriend :: "uuid option"
  cp_messages :: "message list"
  cp_newMessage :: string
  cp_sending :: bool

text \<open>
  \<^verbatim>\<open>sendMessage\<close> (Chat). \<open>new_id\<close> and \<open>now\<close> are the column defaults
  \<^verbatim>\<open>gen_random_uuid()\<close> and \<^verbatim>\<open>now()\<close> the store fills in. The \<^verbatim>\<open>finally\<close> block resets
  \<^verbatim>\<open>sending\<close> on every path past the guard.
\<close>

definition sendMessage ::
  "error option \<Rightarrow> error option \<Rightarrow> uuid \<Rightarrow> int \<Rightarrow> database \<Rightarrow> auth_user \<Rightarrow> chat_page
     \<Rightarrow> chat_page outcome" where
  "sendMessage fault_m fault_n new_id now db user st =
     (case cp_selectedFriend st of
        None \<Rightarrow> \<lparr>out_db = db, out_state = st, out_toasts = []\<rparr>
      | Some friend \<Rightarrow>
          if trim (cp_newMessage st) = [] \<or> cp_sending st
          then \<lparr>out_db = db, out_state = st, out_toasts = []\<rparr>
          else
            let row = \<lparr>m_id = new_id, m_sender_id = au_id user, m_receiver_id = friend,
                       m_content = trim (cp_newMessage st), m_read = False, m_created_at = now\<rparr>
            in case store_insert fault_m (messages_constraints db row)
                      (messages_insert_check (au_id user) row) row (messages db) of
                 Inl e \<Rightarrow>
                   \<lparr>out_db = db, out_state = st\<lparr>cp_sending := False\<rparr>,
                    out_toasts = [Toast_error ''Failed to send message'']\<rparr>
               | Inr rows \<Rightarrow>
                   \<lparr>out_db = insert_notification fault_n (db\<lparr>messages := rows\<rparr>) (au_id user)
                       \<lparr>n_user_id = friend, n_title = ''New Message'',
                        n_message = ''You have a new message from '' @
                          (case au_email user of Some e \<Rightarrow> e | None \<Rightarrow> ''undefined''),
                        n_type = Chat, n_read = False\<rparr>,
                    out_state = st\<lparr>cp_messages := cp_messages st @ [row], cp_newMessage := [],
                                   cp_sending := False\<rparr>,
                    out_toasts = []\<rparr>)"

text \<open>
  \<^verbatim>\<open>sendFriendRequest\<close> (Friends). After the two inserts the client also starts
  \<^verbatim>\<open>fetchSentRequests\<close>, a read it does not await.
\<close>

definition sendFriendRequest ::
  "error option \<Rightarrow> error option \<Rightarrow> uuid \<Rightarrow> database \<Rightarrow> uuid \<Rightarrow> friends_page \<Rightarrow> uuid
     \<Rightarrow> friends_page outcome" where
  "sendFriendRequest fault_f fault_n new_id db uid st userId =
     (let row = \<lparr>f_id = new_id, f_requester_id = uid, f_addressee_id = userId, f_status = Requested\<rparr>
      in case store_insert fault_f (friendships_constraints db row) (friendships_insert_check uid row)
                row (friendships db) of
           Inl e \<Rightarrow>
             \<lparr>out_db = db, out_state = st, out_toasts = [Toast_error ''Failed to send friend request'']\<rparr>
         | Inr rows \<Rightarrow>
             \<lparr>out_db = insert_notification fault_n (db\<lparr>friendships := rows\<rparr>) uid
                 \<lparr>n_user_id = userId, n_title = ''Friend Request'',
                  n_message = ''You have received a new friend request'',
                  n_type = Friend_request, n_read = False\<rparr>,
              out_state = st\<lparr>fp_searchResults := filter (\<lambda>u. pr_id u \<noteq> userId) (fp_searchResults st)\<rparr>,
              out_toasts = [Toast_success ''Friend request sent!'']\<rparr>)"

section \<open>Projects page\<close>

record new_task_form =
  nt_title :: string
  nt_description :: string
  nt_priority :: priority_level
  nt_deadline :: int
  nt_assigned_to :: uuid

record projects_page =
  pp_selectedProject :: "project option"
  pp_projectTasks :: "task list"
  pp_newTask :: new_task_form

definition empty_task_form :: new_task_form where
  "empty_task_form =
     \<lparr>nt_title = [], nt_description = [], nt_priority = Moderate, nt_deadline = 0, nt_assigned_to = []\<rparr>"

text \<open>
  \<^verbatim>\<open>createTask\<close> (Projects). The success toast is raised before the notification insert;
  the notification goes out only when \<^verbatim>\<open>newTask.assigned_to !== user.id\<close>. The deadline is
  the value of the form's required date input. Resetting the form stores the empty
  strings; its deadline field is written \<open>0\<close> here.
\<close>

definition createTask ::
  "error option \<Rightarrow> error option \<Rightarrow> uuid \<Rightarrow> database \<Rightarrow> uuid \<Rightarrow> projects_page
     \<Rightarrow> projects_page outcome" where
  "createTask fault_t fault_n new_id db uid st =
     (case pp_selectedProject st of
        None \<Rightarrow> \<lparr>out_db = db, out_state = st, out_toasts = []\<rparr>
      | Some selectedProject \<Rightarrow>
          if trim (nt_title (pp_newTask st)) = []
          then \<lparr>out_db = db, out_state = st, out_toasts = []\<rparr>
          else
            let newTask = pp_newTask st;
                row = \<lparr>t_id = new_id, t_title = nt_title newTask,
                       t_description = nt_description newTask, t_priority = nt_priority newTask,
                       t_status = Pending, t_deadline = nt_deadline newTask,
                       t_assigned_to = nt_assigned_to newTask,
                       t_project_id = Some (pj_id selectedProject), t_user_id = uid\<rparr>
            in case store_insert fault_t (tasks_constraints db row) (tasks_insert_check uid row)
                      row (tasks db) of
                 Inl e \<Rightarrow>
                   \<lparr>out_db = db, out_state = st, out_toasts = [Toast_error ''Failed to create task'']\<rparr>
               | Inr rows \<Rightarrow>
                   \<lparr>out_db =
                      (if nt_assigned_to newTask \<noteq> uid
                       then insert_notification fault_n (db\<lparr>tasks := rows\<rparr>) uid
                              \<lparr>n_user_id = nt_assigned_to newTask, n_title = ''New Task Assigned'',
                               n_message = ''You have been assigned a new task: '' @ nt_title newTask,
                               n_type = Project, n_read = False\<rparr>
                       else db\<lparr>tasks := rows\<rparr>),
                    out_state = st\<lparr>pp_projectTasks := row # pp_projectTasks st,
                                   pp_newTask := empty_task_form\<rparr>,
                    out_toasts = [Toast_success ''Task created successfully!'']\<rparr>)"

section \<open>JavaScript numbers\<close>

text \<open>
  A JavaScript number is an IEEE 754 binary64 value. Finite values are modelled as the
  rationals they denote, and every arithmetic operation as the exact operation followed by
  \<open>fl\<close>, rounding to the nearest representable value with ties to the even significand:
  53 significant bits above the exponent \<open>-1074\<close> of the subnormals. Infinities and
  \<^verbatim>\<open>NaN\<close> are not represented; no operand below comes near \<open>2 ^ 1024\<close>.
\<close>

definition pow2 :: "int \<Rightarrow> rat" where
  "pow2 e = (if 0 \<le> e then 2 ^ nat e else 1 / 2 ^ nat (- e))"

definition ilog2 :: "rat \<Rightarrow> int" where
  \<comment> \<open>for \<open>0 < x\<close>, the exponent \<open>k\<close> with \<open>2 ^ k \<le> x < 2 ^ (k + 1)\<close>\<close>
  "ilog2 x = (if 1 \<le> x then bitlen \<lfloor>x\<rfloor> - 1 else - bitlen (\<lceil>1 / x\<rceil> - 1))"

definition round_even :: "rat \<Rightarrow> int" where
  "round_even x =
     (let f = \<lfloor>x\<rfloor>; d = x - of_int f
      in if d < 1 / 2 then f else if 1 / 2 < d then f + 1 else if even f then f else f + 1)"

definition fexp :: "rat \<Rightarrow> int" where
  \<comment> \<open>the exponent of the last place of the binary64 values around \<open>x\<close>\<close>
  "fexp x = max (ilog2 \<bar>x\<bar> - 52) (- 1074)"

definition fl :: "rat \<Rightarrow> rat" where
  "fl x =
     (if x = 0 then 0
      else sgn x * of_int (round_even (\<bar>x\<bar> / pow2 (fexp x))) * pow2 (fexp x))"

definition js_sub :: "rat \<Rightarrow> rat \<Rightarrow> rat" where
  "js_sub a b = fl (a - b)"

definition js_mul :: "rat \<Rightarrow> rat \<Rightarrow> rat" where
  "js_mul a b = fl (a * b)"

definition js_div :: "rat \<Rightarrow> rat \<Rightarrow> rat" where
  "js_div a b = fl (a / b)"

definition Math_round :: "rat \<Rightarrow> int" where
  \<comment> \<open>the nearest integer, a tie going up\<close>
  "Math_round x = \<lfloor>x + 1 / 2\<rfloor>"

definition Math_floor :: "rat \<Rightarrow> int" where
  "Math_floor x = \<lfloor>x\<rfloor>"

section \<open>Task status and project progress\<close>

text \<open>
  The progress \<^verbatim>\<open>updateTaskStatus\<close> of the Projects page computes, from the task list
  held in the page's state before the change:
  \<^verbatim>\<open>filter(t => t.status === 'completed' || (t.id === taskId && status === 'completed')).length\<close>,
  \<^verbatim>\<open>projectTasks.length\<close> and
  \<^verbatim>\<open>totalTasks > 0 ? Math.round((completedTasks / totalTasks) * 100) : 0\<close>.
\<close>

definition completedTasks :: "task list \<Rightarrow> uuid \<Rightarrow> task_status \<Rightarrow> nat" where
  "completedTasks projectTasks taskId status =
     length (filter (\<lambda>t. t_status t = Completed \<or> (t_id t = taskId \<and> status = Completed))
               projectTasks)"

definition newProgress :: "task list \<Rightarrow> uuid \<Rightarrow> task_status \<Rightarrow> int" where
  "newProgress projectTasks taskId status =
     (let totalTasks = length projectTasks
      in if 0 < totalTasks
         then Math_round (js_mul (js_div (of_nat (completedTasks projectTasks taskId status))
                                         (of_nat totalTasks)) 100)
         else 0)"

definition set_status :: "uuid \<Rightarrow> task_status \<Rightarrow> task list \<Rightarrow> task list" where
  \<comment> \<open>\<^verbatim>\<open>tasks.map(task => task.id === taskId ? { ...task, status } : task)\<close>\<close>
  "set_status taskId status ts = map (\<lambda>t. if t_id t = taskId then t\<lparr>t_status := status\<rparr> else t) ts"

definition update_task_row :: "error option \<Rightarrow> database \<Rightarrow> uuid \<Rightarrow> uuid \<Rightarrow> task_status \<Rightarrow> error + database" where
  "update_task_row fault db uid taskId status =
     map_sum id (\<lambda>rows. db\<lparr>tasks := rows\<rparr>)
       (store_update fault (tasks_update_policy uid) (\<lambda>t. t_id t = taskId)
          (\<lambda>t. t\<lparr>t_status := status\<rparr>) (tasks db))"

definition update_project_progress :: "error option \<Rightarrow> database \<Rightarrow> uuid \<Rightarrow> uuid \<Rightarrow> int \<Rightarrow> database" where
  \<comment> \<open>the answer of this update is not inspected; a value outside the column's
      \<^verbatim>\<open>CHECK (progress >= 0 AND progress <= 100)\<close> makes the statement fail\<close>
  "update_project_progress fault db uid projectId p =
     (case store_update fault (projects_update_policy uid) (\<lambda>r. pj_id r = projectId)
             (\<lambda>r. r\<lparr>pj_progress := p\<rparr>) (projects db) of
        Inl e \<Rightarrow> db
      | Inr rows \<Rightarrow> if rows \<noteq> projects db \<and> \<not> progress_check p then db else db\<lparr>projects := rows\<rparr>)"

text \<open>
  \<^verbatim>\<open>updateTaskStatus\<close> of the Projects page. \<^verbatim>\<open>selectedProject!.id\<close> throws into the
  catch block when no project is selected, after the task row and the local list were
  already updated.
\<close>

definition updateTaskStatus_projects ::
  "error option \<Rightarrow> error option \<Rightarrow> database \<Rightarrow> uuid \<Rightarrow> projects_page \<Rightarrow> uuid \<Rightarrow> task_status
     \<Rightarrow> projects_page outcome" where
  "updateTaskStatus_projects fault_t fault_p db uid st taskId status =
     (case update_task_row fault_t db uid taskId status of
        Inl e \<Rightarrow> \<lparr>out_db = db, out_state = st, out_toasts = [Toast_error ''Failed to update task'']\<rparr>
      | Inr db1 \<Rightarrow>
          let st1 = st\<lparr>pp_projectTasks := set_status taskId status (pp_projectTasks st)\<rparr>;
              p = newProgress (pp_projectTasks st) taskId status
          in case pp_selectedProject st of
               None \<Rightarrow>
                 \<lparr>out_db = db1, out_state = st1, out_toasts = [Toast_error ''Failed to update task'']\<rparr>
             | Some selectedProject \<Rightarrow>
                 \<lparr>out_db = update_project_progress fault_p db1 uid (pj_id selectedProject) p,
                  out_state = st1\<lparr>pp_selectedProject := Some (selectedProject\<lparr>pj_progress := p\<rparr>)\<rparr>,
                  out_toasts = [Toast_success ''Task updated!'']\<rparr>)"

text \<open>
  \<^verbatim>\<open>updateTaskStatus\<close> of the Todo page, whose list is every task with
  \<^verbatim>\<open>user_id = user\<close>, project-linked or not.
\<close>

record todo_page =
  td_tasks :: "task list"

definition fetchTasks_todo :: "database \<Rightarrow> uuid \<Rightarrow> task list" where
  "fetchTasks_todo db uid = store_select (tasks_select_policy uid) (\<lambda>t. t_user_id t = uid) (tasks db)"

definition updateTaskStatus_todo ::
  "error option \<Rightarrow> database \<Rightarrow> uuid \<Rightarrow> todo_page \<Rightarrow> uuid \<Rightarrow> task_status \<Rightarrow> todo_page outcome" where
  "updateTaskStatus_todo fault db uid st taskId status =
     (case update_task_row fault db uid taskId status of
        Inl e \<Rightarrow> \<lparr>out_db = db, out_state = st, out_toasts = [Toast_error ''Failed to update task'']\<rparr>
      | Inr db1 \<Rightarrow>
          \<lparr>out_db = db1, out_state = st\<lparr>td_tasks := set_status taskId status (td_tasks st)\<rparr>,
           out_toasts = [Toast_success ''Task updated!'']\<rparr>)"

text \<open>
  The completion ratio of a project as the specification words it, over the stored task
  rows linked to the project: \<open>0\<close> without tasks, otherwise
  \<open>round (100 * completed / total)\<close>, a tie going up.
\<close>

definition progress_spec :: "task_status list \<Rightarrow> int" where
  "progress_spec ss =
     (if ss = [] then 0
      else \<lfloor>(100 * of_nat (length (filter (\<lambda>s. s = Completed) ss)) / of_nat (length ss) :: rat) + 1 / 2\<rfloor>)"

definition project_statuses :: "database \<Rightarrow> uuid \<Rightarrow> task_status list" where
  "project_statuses db projectId =
     map t_status (filter (\<lambda>t. t_project_id t = Some projectId) (tasks db))"

section \<open>Activity page\<close>

text \<open>
  \<open>date\<close> is the instant \<^verbatim>\<open>new Date(dateString)\<close> denotes and \<open>now\<close> the instant of
  \<^verbatim>\<open>new Date()\<close>, both in milliseconds; \<open>86400000\<close> is \<^verbatim>\<open>1000 * 60 * 60 * 24\<close>. The
  deadline and date columns are \<^verbatim>\<open>date NOT NULL\<close>: their strings denote midnight UTC of a
  day, an integer a number holds exactly.
\<close>

definition isUpcoming :: "int \<Rightarrow> int \<Rightarrow> bool" where
  "isUpcoming date now =
     (let diffInDays = js_div (js_sub (of_int date) (of_int now)) 86400000
      in 0 < diffInDays \<and> diffInDays \<le> 7)"

definition isOverdue :: "int \<Rightarrow> int \<Rightarrow> bool" where
  "isOverdue date now = (date < now)"

text \<open>
  The label \<^verbatim>\<open>formatDate\<close> returns: the fixed strings, \<^verbatim>\<open>`In ${diffInDays} days`\<close>,
  \<^verbatim>\<open>`${Math.abs(diffInDays)} days ago`\<close>, or the date printed by
  \<^verbatim>\<open>toLocaleDateString\<close>.
\<close>

datatype date_label = Today | Tomorrow | Yesterday | In_days int | Days_ago int | Absolute_date int

definition formatDate :: "int \<Rightarrow> int \<Rightarrow> date_label" where
  "formatDate date now =
     (let diffInDays = Math_floor (js_div (js_sub (of_int date) (of_int now)) 86400000)
      in if diffInDays = 0 then Today
         else if diffInDays = 1 then Tomorrow
         else if diffInDays = - 1 then Yesterday
         else if 1 < diffInDays \<and> diffInDays \<le> 7 then In_days diffInDays
         else if diffInDays < - 1 \<and> - 7 \<le> diffInDays then Days_ago \<bar>diffInDays\<bar>
         else Absolute_date date)"

text \<open>
  The three-way style of a listed row (green, red, grey), and the filter of the upcoming
  tab for tasks.
\<close>

datatype row_style = Row_completed | Row_overdue | Row_plain

definition rowStyle :: "task_status \<Rightarrow> int \<Rightarrow> int \<Rightarrow> row_style" where
  "rowStyle status deadline now =
     (if status = Completed then Row_completed
      else if isOverdue deadline now \<and> status \<noteq> Completed then Row_overdue
      else Row_plain)"

definition upcomingTasks :: "task list \<Rightarrow> int \<Rightarrow> task list" where
  "upcomingTasks ts now = filter (\<lambda>t. t_status t = Pending \<and> isUpcoming (t_deadline t) now) ts"

text \<open>
  The classification as the specification words it, on exact instants:
  completed if the status is completed; overdue if it is not and \<open>deadline < now\<close>;
  upcoming if \<open>0 < deadline - now \<le> 7\<close> days; otherwise normal.
\<close>

datatype activity_class = Act_completed | Act_overdue | Act_upcoming | Act_normal

definition classifyActivity_spec :: "task_status \<Rightarrow> int \<Rightarrow> int \<Rightarrow> activity_class" where
  "classifyActivity_spec status deadline now =
     (if status = Completed then Act_completed
      else if deadline < now then Act_overdue
      else if 0 < deadline - now \<and> deadline - now \<le> 7 * 86400000 then Act_upcoming
      else Act_normal)"

definition utc_day :: "int \<Rightarrow> int" where
  \<comment> \<open>the number of the UTC calendar day an instant falls on\<close>
  "utc_day t = t div 86400000"

section \<open>Session and profile\<close>

datatype auth_event = SIGNED_IN | SIGNED_OUT | INITIAL_SESSION | TOKEN_REFRESHED | USER_UPDATED

record auth_state =
  as_user :: "auth_user option"
  as_userProfile :: "profile option"
  as_loading :: bool

definition default_username :: "auth_user \<Rightarrow> string" where
  \<comment> \<open>\<^verbatim>\<open>currentUser.user_metadata?.username || `user-${currentUser.id.slice(0, 8)}`\<close>\<close>
  "default_username u =
     (case au_username u of
        Some n \<Rightarrow> if n \<noteq> [] then n else ''user-'' @ take 8 (au_id u)
      | None \<Rightarrow> ''user-'' @ take 8 (au_id u))"

definition createProfile ::
  "error option \<Rightarrow> database \<Rightarrow> auth_user \<Rightarrow> auth_state \<Rightarrow> auth_state outcome" where
  "createProfile fault db currentUser st =
     (let username = default_username currentUser
      in case au_email currentUser of
           None \<Rightarrow>
             \<lparr>out_db = db, out_state = st\<lparr>as_userProfile := None\<rparr>,
              out_toasts = [Toast_error ''Could not initialize your profile: email is missing.'']\<rparr>
         | Some email \<Rightarrow>
             if email = []
             then \<lparr>out_db = db, out_state = st\<lparr>as_userProfile := None\<rparr>,
                   out_toasts = [Toast_error ''Could not initialize your profile: email is missing.'']\<rparr>
             else
               let row = \<lparr>pr_id = au_id currentUser, pr_username = username, pr_email = email\<rparr>
               in case store_insert fault (profiles_constraints db row)
                         (profiles_insert_check (au_id currentUser) row) row (profiles db) of
                    Inl e \<Rightarrow>
                      \<lparr>out_db = db, out_state = st\<lparr>as_userProfile := None\<rparr>,
                       out_toasts = [Toast_error ''Could not initialize your profile.'']\<rparr>
                  | Inr rows \<Rightarrow>
                      \<lparr>out_db = db\<lparr>profiles := rows\<rparr>, out_state = st\<lparr>as_userProfile := Some row\<rparr>,
                       out_toasts = [Toast_success ''Your profile has been set up!'']\<rparr>)"

definition select_profile :: "error option \<Rightarrow> database \<Rightarrow> uuid \<Rightarrow> uuid \<Rightarrow> error + profile" where
  "select_profile fault db uid x =
     (case fault of
        Some e \<Rightarrow> Inl e
      | None \<Rightarrow> single (store_select (profiles_select_policy uid) (\<lambda>p. pr_id p = x) (profiles db)))"

definition fetchUserProfile ::
  "error option \<Rightarrow> error option \<Rightarrow> database \<Rightarrow> auth_user \<Rightarrow> auth_state \<Rightarrow> auth_state outcome" where
  "fetchUserProfile fault_s fault_i db currentUser st =
     (case select_profile fault_s db (au_id currentUser) (au_id currentUser) of
        Inl e \<Rightarrow>
          if e = NotFound then createProfile fault_i db currentUser st
          else \<lparr>out_db = db, out_state = st\<lparr>as_userProfile := None\<rparr>, out_toasts = []\<rparr>
      | Inr data \<Rightarrow> \<lparr>out_db = db, out_state = st\<lparr>as_userProfile := Some data\<rparr>, out_toasts = []\<rparr>)"

text \<open>
  The callback given to \<^verbatim>\<open>onAuthStateChange\<close>; \<open>session\<close> is the user of the session,
  if there is one. \<^verbatim>\<open>loading\<close> is cleared when the profile fetch settles.
\<close>

definition onAuthStateChange ::
  "error option \<Rightarrow> error option \<Rightarrow> database \<Rightarrow> auth_state \<Rightarrow> auth_event \<Rightarrow> auth_user option
     \<Rightarrow> auth_state outcome" where
  "onAuthStateChange fault_s fault_i db st event session =
     (let st1 = st\<lparr>as_user := session\<rparr>;
          fetched = (\<lambda>user. let r = fetchUserProfile fault_s fault_i db user st1
                            in r\<lparr>out_state := (out_state r)\<lparr>as_loading := False\<rparr>\<rparr>);
          cleared = \<lparr>out_db = db, out_state = st1\<lparr>as_userProfile := None, as_loading := False\<rparr>,
                     out_toasts = []\<rparr>
      in case session of
           Some user \<Rightarrow>
             if event = SIGNED_IN then fetched user
             else if event = SIGNED_OUT then cleared
             else if event = INITIAL_SESSION then fetched user
             else \<lparr>out_db = db, out_state = st1, out_toasts = []\<rparr>
         | None \<Rightarrow>
             if event = SIGNED_OUT then cleared
             else \<lparr>out_db = db, out_state = st1\<lparr>as_loading := False\<rparr>, out_toasts = []\<rparr>)"

section \<open>A sample database\<close>

text \<open>
  Three users; a project of Alice with Bob on the team and one task in progress; Alice
  and Bob are friends (Alice asked), Carol has asked Alice; four messages. The concrete
  statements below are evaluated on it.
\<close>

definition alice :: profile where
  "alice = \<lparr>pr_id = ''u-alice'', pr_username = ''alice'', pr_email = ''alice@example.org''\<rparr>"

definition bob :: profile where
  "bob = \<lparr>pr_id = ''u-bob'', pr_username = ''bob'', pr_email = ''bob@example.org''\<rparr>"

definition carol :: profile where
  "carol = \<lparr>pr_id = ''u-carol'', pr_username = ''carol'', pr_email = ''carol@example.org''\<rparr>"

definition alice_user :: auth_user where
  "alice_user = \<lparr>au_id = ''u-alice'', au_email = Some ''alice@example.org'', au_username = Some ''alice''\<rparr>"

definition apollo :: project where
  "apollo = \<lparr>pj_id = ''p-apollo'', pj_name = ''Apollo'', pj_progress = 0, pj_creator_id = ''u-alice'',
             pj_team_members = [''u-bob'']\<rparr>"

definition sample_task :: "uuid \<Rightarrow> task_status \<Rightarrow> task" where
  "sample_task i s =
     \<lparr>t_id = i, t_title = ''Write report'', t_description = [], t_priority = Moderate, t_status = s,
      t_deadline = 1753142400000, t_assigned_to = ''u-alice'', t_project_id = Some ''p-apollo'',
      t_user_id = ''u-alice''\<rparr>"

definition sample_messages :: "message list" where
  "sample_messages =
     [\<lparr>m_id = ''m1'', m_sender_id = ''u-bob'', m_receiver_id = ''u-alice'', m_content = ''hello'',
       m_read = False, m_created_at = 1753142400000\<rparr>,
      \<lparr>m_id = ''m2'', m_sender_id = ''u-alice'', m_receiver_id = ''u-bob'', m_content = ''hi'',
       m_read = False, m_created_at = 1753142460000\<rparr>,
      \<lparr>m_id = ''m3'', m_sender_id = ''u-carol'', m_receiver_id = ''u-alice'', m_content = ''ping'',
       m_read = False, m_created_at = 1753142520000\<rparr>,
      \<lparr>m_id = ''m4'', m_sender_id = ''u-bob'', m_receiver_id = ''u-alice'', m_content = ''old'',
       m_read = True, m_created_at = 1753142300000\<rparr>]"

definition sample_db :: database where
  "sample_db =
     \<lparr>profiles = [alice, bob, carol],
      projects = [apollo],
      tasks = [sample_task ''t1'' In_progress],
      friendships =
        [\<lparr>f_id = ''f1'', f_requester_id = ''u-alice'', f_addressee_id = ''u-bob'', f_status = Accepted\<rparr>,
         \<lparr>f_id = ''f2'', f_requester_id = ''u-carol'', f_addressee_id = ''u-alice'', f_status = Requested\<rparr>],
      messages = sample_messages,
      notifications = []\<rparr>"

definition sample_friends_page :: friends_page where
  "sample_friends_page = \<lparr>fp_friends = [Some bob], fp_searchResults = [carol]\<rparr>"

definition sample_projects_page :: projects_page where
  "sample_projects_page =
     \<lparr>pp_selectedProject = Some apollo, pp_projectTasks = [sample_task ''t1'' In_progress],
      pp_newTask = \<lparr>nt_title = ''Review draft'', nt_description = [], nt_priority = High,
                    nt_deadline = 1753142400000, nt_assigned_to = ''u-bob''\<rparr>\<rparr>"

definition sample_chat_page :: chat_page where
  "sample_chat_page =
     \<lparr>cp_selectedFriend = Some ''u-bob'', cp_messages = [], cp_newMessage = '' see you '',
      cp_sending = False\<rparr>"

text \<open>Two identities without a profile row: Dave signed up with a username, Erin carries none.\<close>

definition dave_user :: auth_user where
  "dave_user =
     \<lparr>au_id = ''0f8fad5b-d9cb'', au_email = Some ''dave@example.org'', au_username = Some ''dave''\<rparr>"

definition erin_user :: auth_user where
  "erin_user =
     \<lparr>au_id = ''7c9e6679-7425'', au_email = Some ''erin@example.org'', au_username = None\<rparr>"

definition signed_out :: auth_state where
  "signed_out = \<lparr>as_user = None, as_userProfile = None, as_loading = True\<rparr>"

text \<open>
  Forty tasks with distinct identifiers \<open>t\<close>, \<open>tt\<close>, \<open>ttt\<close>, ...: the first twenty-two
  completed, the others in progress.
\<close>

definition forty_tasks :: "task list" where
  "forty_tasks =
     map (\<lambda>n. sample_task (replicate (Suc n) CHR ''t'') (if n < 22 then Completed else In_progress))
       [0..<40]"

definition forty_db :: database where
  "forty_db = sample_db\<lparr>tasks := forty_tasks\<rparr>"

definition forty_page :: projects_page where
  "forty_page = sample_projects_page\<lparr>pp_projectTasks := forty_tasks\<rparr>"

text \<open>
  \<open>halfway c t\<close>: the percentage \<open>100 * c / t\<close> lies exactly between two integers.
\<close>

definition halfway :: "nat \<Rightarrow> nat \<Rightarrow> bool" where
  "halfway c t = (2 * t dvd 200 * c + t)"

section \<open>Properties of the number model\<close>

text \<open>
  Rounding to binary64 is monotone and, in the normal range, off by at most one part in
  \<open>2 ^ 53\<close>. The comparisons and roundings of the client are settled from these two facts.
\<close>

lemma pow2_powi: "pow2 e = 2 powi e"
  by (simp add: pow2_def power_int_def field_simps)

lemma pow2_pos: "0 < pow2 e"
  by (simp add: pow2_powi)

lemma pow2_add: "pow2 (a + b) = pow2 a * pow2 b"
  by (simp add: pow2_powi power_int_add)

lemma pow2_mono: "a \<le> b \<Longrightarrow> pow2 a \<le> pow2 b"
  by (simp add: pow2_powi power_int_increasing)


lemma ilog2_bounds:
  assumes "0 < x"
  shows "pow2 (ilog2 x) \<le> x" and "x < pow2 (ilog2 x + 1)"
proof -
  show "pow2 (ilog2 x) \<le> x"
  proof (cases "1 \<le> x")
    case True
    then have n: "0 < \<lfloor>x\<rfloor>" by simp
    have b1: "1 \<le> bitlen \<lfloor>x\<rfloor>" using n by (simp add: bitlen_alt_def)
    have "(2::int) ^ nat (bitlen \<lfloor>x\<rfloor> - 1) \<le> \<lfloor>x\<rfloor>" using bitlen_bounds [OF n] by simp
    then have "(2 ^ nat (bitlen \<lfloor>x\<rfloor> - 1) :: rat) \<le> of_int \<lfloor>x\<rfloor>"
      using of_int_le_iff [where ?'a = rat, of "2 ^ nat (bitlen \<lfloor>x\<rfloor> - 1)" "\<lfloor>x\<rfloor>"] by simp
    also have "\<dots> \<le> x" by simp
    finally show ?thesis using True b1 by (simp add: ilog2_def pow2_def)
  next
    case False
    then have x1: "x < 1" by simp
    define m where "m = \<lceil>1 / x\<rceil>"
    have "1 < 1 / x" using assms x1 by (simp add: field_simps)
    then have m2: "2 \<le> m" unfolding m_def by (simp add: less_ceiling_iff le_ceiling_iff) 
    then have p: "0 < m - 1" by simp
    have "m - 1 < 2 ^ nat (bitlen (m - 1))" using bitlen_bounds [OF p] by simp
    then have "m \<le> 2 ^ nat (bitlen (m - 1))" by simp
    then have "(of_int m :: rat) \<le> 2 ^ nat (bitlen (m - 1))"
      using of_int_le_iff [where ?'a = rat, of m "2 ^ nat (bitlen (m - 1))"] by simp
    moreover have "1 / x \<le> of_int m" unfolding m_def by simp
    ultimately have "1 / x \<le> 2 ^ nat (bitlen (m - 1))" by linarith
    then have "1 / 2 ^ nat (bitlen (m - 1)) \<le> x" using assms by (simp add: field_simps)
    moreover have "pow2 (- bitlen (m - 1)) = 1 / 2 ^ nat (bitlen (m - 1))"
      using bitlen_nonneg [of "m - 1"] by (auto simp: pow2_def)
    ultimately show ?thesis using False by (simp add: ilog2_def m_def)
  qed
  show "x < pow2 (ilog2 x + 1)"
  proof (cases "1 \<le> x")
    case True
    then have n: "0 < \<lfloor>x\<rfloor>" by simp
    have b1: "1 \<le> bitlen \<lfloor>x\<rfloor>" using n by (simp add: bitlen_alt_def)
    have "\<lfloor>x\<rfloor> + 1 \<le> 2 ^ nat (bitlen \<lfloor>x\<rfloor>)" using bitlen_bounds [OF n] by simp
    then have "(of_int (\<lfloor>x\<rfloor> + 1) :: rat) \<le> 2 ^ nat (bitlen \<lfloor>x\<rfloor>)"
      using of_int_le_iff [where ?'a = rat, of "\<lfloor>x\<rfloor> + 1" "2 ^ nat (bitlen \<lfloor>x\<rfloor>)"] by simp
    moreover have "x < of_int (\<lfloor>x\<rfloor> + 1)" by linarith
    ultimately have "x < 2 ^ nat (bitlen \<lfloor>x\<rfloor>)" by linarith
    then show ?thesis using True b1 by (simp add: ilog2_def pow2_def)
  next
    case False
    then have x1: "x < 1" by simp
    define m where "m = \<lceil>1 / x\<rceil>"
    define b where "b = bitlen (m - 1)"
    have "1 < 1 / x" using assms x1 by (simp add: field_simps)
    then have m2: "2 \<le> m" unfolding m_def by (simp add: less_ceiling_iff le_ceiling_iff) 
    then have p: "0 < m - 1" by simp
    have b1: "1 \<le> b" using p by (simp add: b_def bitlen_alt_def)
    have "2 ^ nat (b - 1) \<le> m - 1" using bitlen_bounds [OF p] by (simp add: b_def)
    then have "(2 ^ nat (b - 1) :: rat) \<le> of_int (m - 1)"
      using of_int_le_iff [where ?'a = rat, of "2 ^ nat (b - 1)" "m - 1"] by simp
    moreover have "of_int (m - 1) < 1 / x" unfolding m_def by linarith
    ultimately have "2 ^ nat (b - 1) < 1 / x" by linarith
    then have "x < 1 / 2 ^ nat (b - 1)" using assms by (simp add: field_simps)
    moreover have "pow2 (- b + 1) = 1 / 2 ^ nat (b - 1)"
      using b1 by (auto simp: pow2_def)
    ultimately show ?thesis using False by (simp add: ilog2_def m_def b_def)
  qed
qed


lemma pow2_strict_mono: "a < b \<Longrightarrow> pow2 a < pow2 b"
  by (simp add: pow2_powi power_int_strict_increasing)


lemma ilog2_mono:
  assumes "0 < x" "x \<le> y"
  shows "ilog2 x \<le> ilog2 y"
proof (rule ccontr)
  assume "\<not> ilog2 x \<le> ilog2 y"
  then have "ilog2 y + 1 \<le> ilog2 x" by simp
  then have "pow2 (ilog2 y + 1) \<le> pow2 (ilog2 x)" by (rule pow2_mono)
  also have "\<dots> \<le> x" using assms(1) by (rule ilog2_bounds)
  also have "\<dots> \<le> y" by fact
  also have "\<dots> < pow2 (ilog2 y + 1)" using assms by (intro ilog2_bounds) simp
  finally show False by simp
qed

lemma ilog2_ge:
  assumes "pow2 k \<le> x"
  shows "k \<le> ilog2 x"
proof -
  have x: "0 < x" using assms pow2_pos [of k] by linarith
  have "pow2 k < pow2 (ilog2 x + 1)" using assms ilog2_bounds(2) [OF x] by linarith
  then have "k < ilog2 x + 1" using pow2_mono [of "ilog2 x + 1" k] by (auto simp: not_le [symmetric])
  then show ?thesis by simp
qed

lemma round_even_of_int: "round_even (of_int n) = n"
  by (simp add: round_even_def)

lemma round_even_bounds: "x - 1 / 2 \<le> of_int (round_even x)" "of_int (round_even x) \<le> x + 1 / 2"
  unfolding round_even_def Let_def by (auto; linarith)+

lemma round_even_mono:
  assumes "x \<le> y"
  shows "round_even x \<le> round_even y"
proof -
  have f: "\<lfloor>x\<rfloor> \<le> \<lfloor>y\<rfloor>" using assms by (rule floor_mono)
  show ?thesis
  proof (cases "\<lfloor>x\<rfloor> = \<lfloor>y\<rfloor>")
    case True
    then show ?thesis using assms unfolding round_even_def Let_def by auto
  next
    case False
    then have "\<lfloor>x\<rfloor> + 1 \<le> \<lfloor>y\<rfloor>" using f by simp
    moreover have "round_even x \<le> \<lfloor>x\<rfloor> + 1" unfolding round_even_def Let_def by auto
    moreover have "\<lfloor>y\<rfloor> \<le> round_even y" unfolding round_even_def Let_def by auto
    ultimately show ?thesis by linarith
  qed
qed

lemma round_even_nonneg: "0 \<le> x \<Longrightarrow> 0 \<le> round_even x"
  using round_even_mono [of 0 x] round_even_of_int [of 0] by simp

lemma fl_pos: "0 < x \<Longrightarrow> fl x = of_int (round_even (x / pow2 (fexp x))) * pow2 (fexp x)"
  by (simp add: fl_def)

lemma fl_minus: "fl (- x) = - fl x"
  by (simp add: fl_def fexp_def)

lemma fl_nonneg: "0 \<le> x \<Longrightarrow> 0 \<le> fl x"
  by (cases "x = 0") (auto simp: fl_def pow2_pos less_imp_le round_even_nonneg)

lemma fl_le_pow2:
  assumes "0 < x" "x \<le> pow2 k" "fexp x \<le> k"
  shows "fl x \<le> pow2 k"
proof -
  define e where "e = fexp x"
  have "x / pow2 e \<le> pow2 k / pow2 e" using assms(2) pow2_pos [of e] by (simp add: divide_right_mono)
  also have "pow2 k / pow2 e = pow2 (k - e)" using pow2_add [of "k - e" e] pow2_pos [of e] by simp
  also have "\<dots> = of_int (2 ^ nat (k - e))" using assms(3) by (simp add: pow2_def e_def)
  finally have "round_even (x / pow2 e) \<le> 2 ^ nat (k - e)"
    using round_even_mono round_even_of_int by metis
  then have "(of_int (round_even (x / pow2 e)) :: rat) \<le> of_int (2 ^ nat (k - e))"
    by (simp only: of_int_le_iff)
  also have "\<dots> = pow2 (k - e)" using assms(3) by (simp add: pow2_def e_def)
  finally have "of_int (round_even (x / pow2 e)) * pow2 e \<le> pow2 (k - e) * pow2 e"
    using pow2_pos [of e] by (simp add: mult_right_mono)
  then show ?thesis using assms(1) pow2_add [of "k - e" e] by (simp add: fl_pos e_def)
qed

lemma pow2_le_fl:
  assumes "pow2 k \<le> x" "fexp x \<le> k"
  shows "pow2 k \<le> fl x"
proof -
  define e where "e = fexp x"
  have x: "0 < x" using assms(1) pow2_pos [of k] by linarith
  have "pow2 k / pow2 e \<le> x / pow2 e" using assms(1) pow2_pos [of e] by (simp add: divide_right_mono)
  moreover have "pow2 k / pow2 e = pow2 (k - e)" using pow2_add [of "k - e" e] pow2_pos [of e] by simp
  moreover have "pow2 (k - e) = of_int (2 ^ nat (k - e))" using assms(2) by (simp add: pow2_def e_def)
  ultimately have "2 ^ nat (k - e) \<le> round_even (x / pow2 e)"
    using round_even_mono round_even_of_int by metis
  then have "(2 ^ nat (k - e) :: rat) \<le> of_int (round_even (x / pow2 e))"
    using of_int_le_iff [where ?'a = rat, of "2 ^ nat (k - e)" "round_even (x / pow2 e)"] by simp
  moreover have "pow2 (k - e) = 2 ^ nat (k - e)" using assms(2) by (simp add: pow2_def e_def)
  ultimately have "pow2 (k - e) \<le> of_int (round_even (x / pow2 e))" by simp
  then have "pow2 (k - e) * pow2 e \<le> of_int (round_even (x / pow2 e)) * pow2 e"
    using pow2_pos [of e] by (simp add: mult_right_mono)
  then show ?thesis using x pow2_add [of "k - e" e] by (simp add: fl_pos e_def)
qed

lemma fl_mono_pos:
  assumes "0 < x" "x \<le> y"
  shows "fl x \<le> fl y"
proof -
  have y: "0 < y" using assms by simp
  have il: "ilog2 x \<le> ilog2 y" using assms by (rule ilog2_mono)
  then have e: "fexp x \<le> fexp y" using assms by (simp add: fexp_def)
  show ?thesis
  proof (cases "fexp x = fexp y")
    case True
    have "x / pow2 (fexp y) \<le> y / pow2 (fexp y)"
      using assms(2) pow2_pos [of "fexp y"] by (simp add: divide_right_mono)
    then have "round_even (x / pow2 (fexp y)) \<le> round_even (y / pow2 (fexp y))"
      by (rule round_even_mono)
    then have "(of_int (round_even (x / pow2 (fexp y))) :: rat) \<le> of_int (round_even (y / pow2 (fexp y)))"
      by (simp only: of_int_le_iff)
    then show ?thesis using assms(1) y True pow2_pos [of "fexp y"]
      by (simp add: fl_pos mult_right_mono)
  next
    case False
    then have lt: "fexp x < fexp y" using e by simp
    then have ey: "fexp y = ilog2 y - 52" using assms y by (auto simp: fexp_def max_def split: if_splits)
    have ex: "ilog2 x - 52 \<le> fexp x" using assms(1) by (simp add: fexp_def)
    define k where "k = max (ilog2 x + 1) (fexp x)"
    have k: "k \<le> ilog2 y" using lt ey ex by (simp add: k_def)
    have "x \<le> pow2 (ilog2 x + 1)" using ilog2_bounds(2) [OF assms(1)] by simp
    also have "\<dots> \<le> pow2 k" by (rule pow2_mono) (simp add: k_def)
    finally have "fl x \<le> pow2 k" using assms(1) by (intro fl_le_pow2) (simp_all add: k_def)
    also have "\<dots> \<le> pow2 (ilog2 y)" using k by (rule pow2_mono)
    also have "\<dots> \<le> fl y" using ilog2_bounds(1) [OF y] ey by (intro pow2_le_fl) simp_all
    finally show ?thesis .
  qed
qed

lemma fl_zero: "fl 0 = 0"
  by (simp add: fl_def)

lemma fl_mono:
  assumes "x \<le> y"
  shows "fl x \<le> fl y"
proof -
  consider "0 < x" | "x \<le> 0" "0 \<le> y" | "y < 0" by linarith
  then show ?thesis
  proof cases
    case 1
    then show ?thesis using assms by (rule fl_mono_pos)
  next
    case 2
    have "fl x \<le> 0" using fl_nonneg [of "- x"] 2(1) by (simp add: fl_minus)
    moreover have "0 \<le> fl y" using 2(2) by (rule fl_nonneg)
    ultimately show ?thesis by simp
  next
    case 3
    then have "fl (- y) \<le> fl (- x)" using assms by (intro fl_mono_pos) simp_all
    then show ?thesis by (simp add: fl_minus)
  qed
qed

lemma fl_error:
  assumes "pow2 (- 1022) \<le> x"
  shows "\<bar>fl x - x\<bar> \<le> x / 2 ^ 53"
proof -
  have x: "0 < x" using assms pow2_pos [of "- 1022"] by linarith
  have "- 1022 \<le> ilog2 x" using assms by (rule ilog2_ge)
  then have e: "fexp x = ilog2 x - 52" using x by (simp add: fexp_def)
  define p where "p = pow2 (fexp x)"
  define m where "m = (of_int (round_even (x / p)) :: rat)"
  have p: "0 < p" unfolding p_def by (rule pow2_pos)
  have "\<bar>m - x / p\<bar> \<le> 1 / 2"
    using round_even_bounds [of "x / p"] unfolding m_def by linarith
  then have "\<bar>m - x / p\<bar> * p \<le> 1 / 2 * p" using p by (intro mult_right_mono) simp_all
  moreover have "\<bar>m - x / p\<bar> * p = \<bar>(m - x / p) * p\<bar>"
    using p by (simp add: abs_mult)
  moreover have "(m - x / p) * p = m * p - x"
    using p by (simp add: field_simps)
  ultimately have 1: "\<bar>fl x - x\<bar> \<le> p / 2" using x by (simp add: fl_pos p_def m_def)
  have "p = pow2 (ilog2 x) * pow2 (- 52)" using pow2_add [of "ilog2 x" "- 52"] by (simp add: p_def e)
  also have "\<dots> \<le> x * pow2 (- 52)"
    using ilog2_bounds(1) [OF x] pow2_pos [of "- 52"] by (intro mult_right_mono) simp_all
  finally have "p / 2 \<le> x * pow2 (- 52) / 2" by simp
  also have "\<dots> = x / 2 ^ 53" by (simp add: pow2_def)
  finally show ?thesis using 1 by linarith
qed

lemma progress_error:
  fixes c t :: nat
  assumes c: "0 < c" and ct: "c \<le> t" and bound: "t < 2 ^ 32"
  shows "\<bar>js_mul (js_div (of_nat c) (of_nat t)) 100 - 100 * of_nat c / of_nat t\<bar> \<le> 201 / 2 ^ 53"
proof -
  define r where "r = (of_nat c / of_nat t :: rat)"
  define q where "q = fl r"
  define y where "y = fl (q * 100)"
  define eps where "eps = (1 / 2 ^ 53 :: rat)"
  have tr: "(0::rat) < of_nat t" using c ct by simp
  have tb: "(of_nat t :: rat) < 2 ^ 32"
    using bound of_nat_less_iff [where ?'a = rat, of t "2 ^ 32"] by simp
  have r1: "r \<le> 1" using ct tr by (simp add: r_def)
  have "(1::rat) \<le> of_nat c" using c by (simp add: Suc_le_eq)
  then have "1 / of_nat t \<le> r" using tr by (simp add: r_def divide_right_mono)
  moreover have "1 / 2 ^ 32 < 1 / (of_nat t :: rat)" using tr tb by (simp add: field_simps)
  ultimately have rlow: "1 / 2 ^ 32 < r" by linarith
  have "pow2 (- 1022) \<le> pow2 (- 32)" by (rule pow2_mono) simp
  also have "pow2 (- 32) = 1 / 2 ^ 32" by (simp add: pow2_def)
  also have "\<dots> \<le> r" using rlow by (rule less_imp_le)
  finally have "pow2 (- 1022) \<le> r" .
  then have "\<bar>q - r\<bar> \<le> r / 2 ^ 53" unfolding q_def by (rule fl_error)
  then have qr: "\<bar>q - r\<bar> \<le> eps" using r1 by (simp add: eps_def field_simps)
  have eps: "eps \<le> 1 / 2 ^ 33" by (simp add: eps_def)
  have qlow: "1 / 2 ^ 33 \<le> q" using qr rlow eps by (simp add: abs_le_iff)
  have qhigh: "q \<le> 1 + eps" using qr r1 by (simp add: abs_le_iff)
  have "pow2 (- 1022) \<le> pow2 (- 33)" by (rule pow2_mono) simp
  also have "pow2 (- 33) = 1 / 2 ^ 33" by (simp add: pow2_def)
  also have "\<dots> \<le> q" by (rule qlow)
  also have "q \<le> q * 100" using qlow less_le_trans [of 0 "1 / 2 ^ 33" q] by simp
  finally have "pow2 (- 1022) \<le> q * 100" .
  then have "\<bar>y - q * 100\<bar> \<le> q * 100 / 2 ^ 53" unfolding y_def by (rule fl_error)
  also have "\<dots> \<le> 101 * eps" using qhigh by (simp add: eps_def field_simps)
  finally have yq: "\<bar>y - q * 100\<bar> \<le> 101 * eps" .
  have "\<bar>y - 100 * r\<bar> \<le> 201 * eps" using yq qr by (simp add: abs_le_iff)
  then show ?thesis by (simp add: y_def q_def r_def eps_def js_mul_def js_div_def)
qed

lemma progress_cases:
  fixes c t :: nat
  assumes t: "0 < t" and ct: "c \<le> t" and bound: "t < 2 ^ 32"
  shows "(\<not> 2 * t dvd 200 * c + t \<longrightarrow>
           Math_round (js_mul (js_div (of_nat c) (of_nat t)) 100) = (200 * int c + int t) div (2 * int t)) \<and>
         (2 * t dvd 200 * c + t \<longrightarrow>
           Math_round (js_mul (js_div (of_nat c) (of_nat t)) 100) = (200 * int c + int t) div (2 * int t) \<or>
           Math_round (js_mul (js_div (of_nat c) (of_nat t)) 100) = (200 * int c + int t) div (2 * int t) - 1)"
proof (cases "c = 0")
  case True
  have "\<not> 2 * t dvd t" using t by (auto dest: dvd_imp_le)
  then show ?thesis using True t by (simp add: Math_round_def js_mul_def js_div_def fl_zero floor_eq_iff)
next
  case False
  define y where "y = js_mul (js_div (of_nat c) (of_nat t)) 100"
  define N where "N = 200 * int c + int t"
  define D where "D = 2 * int t"
  define k where "k = N div D"
  define m where "m = N mod D"
  have tr: "(0::rat) < of_nat t" using t by simp
  have tb: "(of_nat t :: rat) < 2 ^ 32"
    using bound of_nat_less_iff [where ?'a = rat, of t "2 ^ 32"] by simp
  define z where "z = (100 * of_nat c / of_nat t :: rat)"
  define e where "e = (201 / 2 ^ 53 :: rat)"
  have "\<bar>y - z\<bar> \<le> e"
    unfolding y_def z_def e_def using False ct bound by (intro progress_error) simp_all
  then have yr: "y \<le> z + e" "z - e \<le> y" by (simp_all add: abs_le_iff)
  have D: "0 < D" using t by (simp add: D_def)
  have m: "0 \<le> m" "m \<le> D - 1" using D by (simp_all add: m_def)
  have dvd: "2 * t dvd 200 * c + t \<longleftrightarrow> m = 0"
  proof -
    have "2 * t dvd 200 * c + t \<longleftrightarrow> int (2 * t) dvd int (200 * c + t)"
      by (simp only: int_dvd_int_iff)
    also have "\<dots> \<longleftrightarrow> D dvd N" by (simp add: D_def N_def)
    also have "\<dots> \<longleftrightarrow> m = 0" by (simp add: m_def dvd_eq_mod_eq_0)
    finally show ?thesis .
  qed
  define w where "w = (1 / of_int D :: rat)"
  define u where "u = (of_int m / of_int D :: rat)"
  have Dr: "(of_int D :: rat) = 2 * of_nat t" by (simp add: D_def)
  have Dpos: "(0::rat) < of_int D" using D by simp
  have "N = k * D + m" by (simp add: k_def m_def)
  then have "(of_int N :: rat) = of_int k * of_int D + of_int m" by (metis of_int_add of_int_mult)
  moreover have "(of_int N :: rat) = 200 * of_nat c + of_nat t" by (simp add: N_def)
  ultimately have mid: "z + 1 / 2 = of_int k + u"
    using tr by (simp add: Dr z_def u_def field_simps)
  have up: "u \<le> 1 - w"
  proof -
    have "(of_int m :: rat) / of_int D \<le> (of_int D - 1) / of_int D"
      using m(2) Dpos of_int_le_iff [where ?'a = rat, of m "D - 1"] by (simp add: divide_right_mono)
    also have "\<dots> = 1 - 1 / (of_int D :: rat)" using Dpos by (simp add: field_simps)
    finally show ?thesis by (simp add: u_def w_def)
  qed
  have u0: "0 \<le> u" using m(1) Dpos by (simp add: u_def)
  have "(1::rat) \<le> of_int D" using D of_int_le_iff [where ?'a = rat, of 1 D] by simp
  then have w1: "w \<le> 1" using Dpos by (simp add: w_def field_simps)
  have small: "e < w"
  proof -
    have "(201 / 2 ^ 53 :: rat) < 1 / 2 ^ 33" by simp
    also have "\<dots> < 1 / (of_int D :: rat)" using tr tb by (simp add: Dr field_simps)
    finally show ?thesis by (simp add: e_def w_def)
  qed
  have lt: "y + 1 / 2 < of_int k + 1" using yr mid up small by linarith
  have ge1: "of_int (k - 1) \<le> y + 1 / 2" using yr mid small u0 w1 by simp
  have notie: "\<lfloor>y + 1 / 2\<rfloor> = k" if "m \<noteq> 0"
  proof -
    have "1 \<le> m" using that m(1) by simp
    then have "(1::rat) / of_int D \<le> of_int m / of_int D"
      using Dpos by (simp add: divide_right_mono)
    then have "w \<le> u" by (simp add: u_def w_def)
    then have "of_int k \<le> y + 1 / 2" using yr mid small by linarith
    then show ?thesis using lt by (intro floor_unique) simp_all
  qed
  have tie: "\<lfloor>y + 1 / 2\<rfloor> = k \<or> \<lfloor>y + 1 / 2\<rfloor> = k - 1"
  proof (cases "of_int k \<le> y + 1 / 2")
    case True
    then have "\<lfloor>y + 1 / 2\<rfloor> = k" using lt by (intro floor_unique) simp_all
    then show ?thesis ..
  next
    case False
    then have "\<lfloor>y + 1 / 2\<rfloor> = k - 1" using ge1 by (intro floor_unique) simp_all
    then show ?thesis ..
  qed
  show ?thesis using notie tie dvd
    by (auto simp: Math_round_def y_def k_def N_def D_def)
qed

lemma fl_1: "fl 1 = 1" by code_simp
lemma fl_7: "fl 7 = 7" by code_simp
lemma fl_week: "fl 604800000 = 604800000" by code_simp
lemma fl_week1: "fl 604800001 = 604800001" by code_simp
lemma fl_ms: "0 < fl (1 / 86400000)" by code_simp
lemma fl_over: "7 < fl (604800001 / 86400000)" by code_simp

lemma isUpcoming_iff: "isUpcoming date now \<longleftrightarrow> 0 < date - now \<and> date - now \<le> 7 * 86400000"
proof -
  define k where "k = date - now"
  define a where "a = fl (of_int k)"
  define d where "d = fl (a / 86400000)"
  have up: "isUpcoming date now \<longleftrightarrow> 0 < d \<and> d \<le> 7"
    by (simp add: isUpcoming_def js_div_def js_sub_def d_def a_def k_def Let_def)
  have pos: "0 < d" if "0 < k"
  proof -
    have "(1::rat) \<le> of_int k" using that by simp
    then have "fl 1 \<le> a" unfolding a_def by (rule fl_mono)
    then have "1 / 86400000 \<le> a / 86400000" by (simp add: fl_1)
    then have "fl (1 / 86400000) \<le> d" unfolding d_def by (rule fl_mono)
    then show ?thesis using fl_ms by linarith
  qed
  have npos: "\<not> 0 < d" if "k \<le> 0"
  proof -
    have "(of_int k :: rat) \<le> 0" using that by simp
    then have "a \<le> fl 0" unfolding a_def by (rule fl_mono)
    then have "a / 86400000 \<le> 0" by (simp add: fl_zero)
    then have "d \<le> fl 0" unfolding d_def by (rule fl_mono)
    then show ?thesis by (simp add: fl_zero)
  qed
  have le: "d \<le> 7" if "k \<le> 604800000"
  proof -
    have "(of_int k :: rat) \<le> 604800000" using that of_int_le_iff [where ?'a = rat, of k 604800000] by simp
    then have "a \<le> fl 604800000" unfolding a_def by (rule fl_mono)
    then have "a / 86400000 \<le> 7" by (simp add: fl_week)
    then have "d \<le> fl 7" unfolding d_def by (rule fl_mono)
    then show ?thesis by (simp add: fl_7)
  qed
  have nle: "\<not> d \<le> 7" if "604800000 < k"
  proof -
    have "604800001 \<le> k" using that by simp
    then have "(604800001 :: rat) \<le> of_int k" using of_int_le_iff [where ?'a = rat, of 604800001 k] by simp
    then have "fl 604800001 \<le> a" unfolding a_def by (rule fl_mono)
    then have "604800001 / 86400000 \<le> a / 86400000" by (simp add: fl_week1)
    then have "fl (604800001 / 86400000) \<le> d" unfolding d_def by (rule fl_mono)
    then show ?thesis using fl_over by linarith
  qed
  show ?thesis using up pos npos le nle unfolding k_def [symmetric]
    by (cases "0 < k"; cases "k \<le> 604800000") auto
qed

section \<open>Project progress\<close>

lemma completedTasks_after:
  assumes "\<forall>t \<in> set ts. t_id t = taskId \<and> t_status t = Completed \<longrightarrow> status = Completed"
  shows "completedTasks ts taskId status =
           length (filter (\<lambda>s. s = Completed) (map t_status (set_status taskId status ts)))"
proof -
  have "filter (\<lambda>t. t_status t = Completed \<or> (t_id t = taskId \<and> status = Completed)) ts =
        filter (\<lambda>t. t_status (if t_id t = taskId then t\<lparr>t_status := status\<rparr> else t) = Completed) ts"
    using assms by (intro filter_cong) auto
  then show ?thesis
    by (simp add: completedTasks_def set_status_def filter_map comp_def)
qed

lemma progress_spec_div:
  assumes "ss \<noteq> []"
  shows "progress_spec ss =
    (200 * int (length (filter (\<lambda>s. s = Completed) ss)) + int (length ss)) div (2 * int (length ss))"
proof -
  define c where "c = length (filter (\<lambda>s. s = Completed) ss)"
  define t where "t = length ss"
  have t: "0 < t" using assms by (simp add: t_def)
  have "(100 * of_nat c / of_nat t :: rat) + 1 / 2 = of_int (200 * int c + int t) / of_int (2 * int t)"
    using t by (simp add: field_simps)
  then have "\<lfloor>(100 * of_nat c / of_nat t :: rat) + 1 / 2\<rfloor> = (200 * int c + int t) div (2 * int t)"
    by (simp only: floor_divide_of_int_eq)
  then show ?thesis using assms by (simp add: progress_spec_def c_def t_def)
qed

text \<open>
  Where the computed progress can leave the ratio: for a list of fewer than \<open>2 ^ 32\<close>
  tasks (every JavaScript array) and a change that does not take a completed task back
  to another status, it is \<open>round (100 * completed / total)\<close> over the list after the
  change unless the percentage lies exactly halfway between two integers, and then it is
  off by at most one.
\<close>

lemma newProgress_ratio:
  assumes "length projectTasks < 2 ^ 32"
    and "\<forall>t \<in> set projectTasks. t_id t = taskId \<and> t_status t = Completed \<longrightarrow> status = Completed"
  shows "(\<not> halfway (length (filter (\<lambda>s. s = Completed)
                         (map t_status (set_status taskId status projectTasks))))
                    (length projectTasks) \<longrightarrow>
            newProgress projectTasks taskId status =
              progress_spec (map t_status (set_status taskId status projectTasks))) \<and>
         (newProgress projectTasks taskId status =
            progress_spec (map t_status (set_status taskId status projectTasks)) \<or>
          newProgress projectTasks taskId status =
            progress_spec (map t_status (set_status taskId status projectTasks)) - 1) \<and>
         newProgress [] taskId status = 0"
proof (cases "projectTasks = []")
  case True
  then show ?thesis by (simp add: newProgress_def progress_spec_def set_status_def)
next
  case False
  define c where "c = completedTasks projectTasks taskId status"
  define t where "t = length projectTasks"
  have c: "c = length (filter (\<lambda>s. s = Completed) (map t_status (set_status taskId status projectTasks)))"
    unfolding c_def using assms(2) by (rule completedTasks_after)
  have t: "0 < t" using False by (simp add: t_def)
  have ct: "c \<le> t" by (simp add: c_def t_def completedTasks_def)
  have tb: "t < 2 ^ 32" using assms(1) by (simp add: t_def)
  have np: "newProgress projectTasks taskId status =
              Math_round (js_mul (js_div (of_nat c) (of_nat t)) 100)"
    using t by (simp add: newProgress_def Let_def c_def t_def)
  have sp: "progress_spec (map t_status (set_status taskId status projectTasks)) =
     (200 * int c + int t) div (2 * int t)"
    using False by (subst progress_spec_div) (simp_all add: c t_def set_status_def)
  have h: "halfway (length (filter (\<lambda>s. s = Completed)
                 (map t_status (set_status taskId status projectTasks)))) (length projectTasks)
           \<longleftrightarrow> 2 * t dvd 200 * c + t"
    by (simp add: halfway_def c t_def)
  show ?thesis using progress_cases [OF t ct tb] unfolding np sp h
    by (auto simp: newProgress_def)
qed


text \<open>
  Claim C1 asks that the progress stored on a status change is \<open>0\<close> for the empty task
  list and \<open>round (100 * completed / total)\<close> otherwise. With forty tasks in Alice's
  project, twenty-two of them completed, she completes the twenty-third on the Projects
  page: the quotient \<^verbatim>\<open>completedTasks / totalTasks\<close> rounds to a value under \<open>23 / 40\<close>,
  the product with \<open>100\<close> to \<open>57.49999999999999\<close>, and \<open>57\<close> is computed and stored,
  where \<open>round (100 * 23 / 40) = 58\<close>; multiplying first, \<^verbatim>\<open>100 * 23 / 40\<close> is
  \<open>57.5\<close> in the same arithmetic and rounds to \<open>58\<close>. The empty list gives \<open>0\<close> and
  \<open>[completed, completed, pending]\<close> gives \<open>67\<close>.
\<close>

theorem newProgress_halfway_rounds_down:
  "length forty_tasks = 40 \<and>
   length (filter (\<lambda>s. s = Completed)
     (map t_status (set_status (replicate 23 CHR ''t'') Completed forty_tasks))) = 23 \<and>
   newProgress forty_tasks (replicate 23 CHR ''t'') Completed = 57 \<and>
   out_toasts (updateTaskStatus_projects None None forty_db ''u-alice'' forty_page
      (replicate 23 CHR ''t'') Completed) = [Toast_success ''Task updated!''] \<and>
   map pj_progress (projects (out_db (updateTaskStatus_projects None None forty_db ''u-alice''
      forty_page (replicate 23 CHR ''t'') Completed))) = [57] \<and>
   progress_spec (project_statuses (out_db (updateTaskStatus_projects None None forty_db ''u-alice''
      forty_page (replicate 23 CHR ''t'') Completed)) ''p-apollo'') = 58 \<and>
   Math_round (js_div (js_mul 100 23) 40) = 58 \<and>
   newProgress [] ''t'' Completed = 0 \<and>
   newProgress [sample_task ''a'' Completed, sample_task ''b'' In_progress, sample_task ''c'' Pending]
     ''b'' Completed = 67"
  by code_simp

text \<open>
  Claim C2 asks that every entry point that changes the status of a project-linked task
  recomputes the project's progress and stores it. On the sample database Alice's Todo
  page lists the task of her project; completing it there updates the task row and
  leaves the project's progress at \<open>0\<close>, where the completion ratio is \<open>100\<close>. The
  same change made on the Projects page stores \<open>100\<close>.
\<close>

theorem todo_status_change_leaves_progress:
  "fetchTasks_todo sample_db ''u-alice'' = [sample_task ''t1'' In_progress] \<and>
   out_toasts (updateTaskStatus_todo None sample_db ''u-alice''
     \<lparr>td_tasks = fetchTasks_todo sample_db ''u-alice''\<rparr> ''t1'' Completed) = [Toast_success ''Task updated!''] \<and>
   tasks (out_db (updateTaskStatus_todo None sample_db ''u-alice''
     \<lparr>td_tasks = fetchTasks_todo sample_db ''u-alice''\<rparr> ''t1'' Completed)) = [sample_task ''t1'' Completed] \<and>
   map pj_progress (projects (out_db (updateTaskStatus_todo None sample_db ''u-alice''
     \<lparr>td_tasks = fetchTasks_todo sample_db ''u-alice''\<rparr> ''t1'' Completed))) = [0] \<and>
   progress_spec (project_statuses (out_db (updateTaskStatus_todo None sample_db ''u-alice''
     \<lparr>td_tasks = fetchTasks_todo sample_db ''u-alice''\<rparr> ''t1'' Completed)) ''p-apollo'') = 100 \<and>
   map pj_progress (projects (out_db (updateTaskStatus_projects None None sample_db ''u-alice''
     sample_projects_page ''t1'' Completed))) = [100]"
  by code_simp

section \<open>Activity classification and date labels\<close>

text \<open>
  Claim C3. The classification by status and deadline agrees with the page: a row is
  styled completed exactly when its status is completed, overdue exactly when it is not
  completed and \<open>deadline < now\<close>; \<^verbatim>\<open>isUpcoming\<close> holds exactly when
  \<open>0 < deadline - now \<le> 7\<close> days; every other item is normal. The upcoming tab lists
  the pending tasks classified upcoming. A pending task due one day ago is overdue, one
  due in three days is upcoming, one due in ten days is normal.
\<close>

theorem classifyActivity_matches:
  "(classifyActivity_spec status deadline now = Act_completed \<longleftrightarrow>
      rowStyle status deadline now = Row_completed) \<and>
   (classifyActivity_spec status deadline now = Act_overdue \<longleftrightarrow>
      rowStyle status deadline now = Row_overdue) \<and>
   (classifyActivity_spec status deadline now = Act_upcoming \<longleftrightarrow>
      rowStyle status deadline now = Row_plain \<and> isUpcoming deadline now) \<and>
   (classifyActivity_spec status deadline now = Act_normal \<longleftrightarrow>
      rowStyle status deadline now = Row_plain \<and> \<not> isUpcoming deadline now) \<and>
   (isOverdue deadline now \<longleftrightarrow> deadline < now) \<and>
   (isUpcoming deadline now \<longleftrightarrow> 0 < deadline - now \<and> deadline - now \<le> 7 * 86400000) \<and>
   (t \<in> set (upcomingTasks ts now) \<longleftrightarrow>
      t \<in> set ts \<and> t_status t = Pending \<and>
      classifyActivity_spec (t_status t) (t_deadline t) now = Act_upcoming) \<and>
   rowStyle Pending (now - 86400000) now = Row_overdue \<and>
   classifyActivity_spec Pending (now - 86400000) now = Act_overdue \<and>
   isUpcoming (now + 3 * 86400000) now \<and>
   classifyActivity_spec Pending (now + 3 * 86400000) now = Act_upcoming \<and>
   \<not> isUpcoming (now + 10 * 86400000) now \<and> \<not> isOverdue (now + 10 * 86400000) now \<and>
   classifyActivity_spec Pending (now + 10 * 86400000) now = Act_normal"
  by (auto simp: classifyActivity_spec_def rowStyle_def isOverdue_def isUpcoming_iff
        upcomingTasks_def)

text \<open>
  Claim C8 asks for the calendar-day difference. \<^verbatim>\<open>formatDate\<close> takes the floor of the
  elapsed time in days instead: a deadline of 22 July 2025 (midnight UTC) read at 10:00
  UTC of the same day is labelled yesterday, read at midnight it is labelled today, and
  the deadline of the following day is labelled today.
\<close>

theorem formatDate_same_day:
  "utc_day 1753142400000 = utc_day 1753178400000 \<and>
   formatDate 1753142400000 1753178400000 = Yesterday \<and>
   formatDate 1753142400000 1753142400000 = Today \<and>
   utc_day 1753228800000 = utc_day 1753178400000 + 1 \<and>
   formatDate 1753228800000 1753178400000 = Today"
  by code_simp

section \<open>Friends\<close>

lemma embed_profile_Some:
  "embed_profile db uid x = Some p \<Longrightarrow> pr_id p = x \<and> p \<in> set (profiles db)"
  by (auto simp: embed_profile_def store_select_def profiles_select_policy_def find_Some_iff)

lemma embed_profile_exists:
  "profile_exists db x \<Longrightarrow> \<exists>p. embed_profile db uid x = Some p"
  by (cases "embed_profile db uid x")
     (auto simp: embed_profile_def store_select_def profiles_select_policy_def find_None_iff
        profile_exists_def)

lemma friendsList_requester:
  assumes "f \<in> set (friendships db)" "f_status f = Accepted"
  shows "embed_profile db (f_requester_id f) (f_addressee_id f) \<in> set (friendsList db (f_requester_id f))"
  using assms
  by (force simp: friendsList_def store_select_def friendships_select_policy_def)

lemma friendsList_addressee:
  assumes "f \<in> set (friendships db)" "f_status f = Accepted" "f_requester_id f \<noteq> f_addressee_id f"
  shows "embed_profile db (f_addressee_id f) (f_requester_id f) \<in> set (friendsList db (f_addressee_id f))"
proof -
  let ?g = "\<lambda>g. if f_requester_id g = f_addressee_id f
                 then embed_profile db (f_addressee_id f) (f_addressee_id g)
                 else embed_profile db (f_addressee_id f) (f_requester_id g)"
  let ?rows = "store_select (friendships_select_policy (f_addressee_id f))
          (\<lambda>g. (f_requester_id g = f_addressee_id f \<or> f_addressee_id g = f_addressee_id f) \<and>
                f_status g = Accepted) (friendships db)"
  have "f \<in> set ?rows"
    using assms by (simp add: store_select_def friendships_select_policy_def)
  then have "?g f \<in> ?g ` set ?rows" by (rule imageI)
  then have "?g f \<in> set (friendsList db (f_addressee_id f))" by (simp add: friendsList_def)
  then show ?thesis using assms(3) by simp
qed

lemma friendsList_not_self:
  assumes "list_all (\<lambda>f. f_requester_id f \<noteq> f_addressee_id f) (friendships db)"
    and "Some p \<in> set (friendsList db uid)"
  shows "pr_id p \<noteq> uid"
proof -
  from assms(2) obtain f where f: "f \<in> set (friendships db)"
    "f_requester_id f = uid \<or> f_addressee_id f = uid"
    and p: "Some p = (if f_requester_id f = uid then embed_profile db uid (f_addressee_id f)
                      else embed_profile db uid (f_requester_id f))"
    by (auto simp: friendsList_def store_select_def)
  have ne: "f_requester_id f \<noteq> f_addressee_id f" using assms(1) f(1) by (simp add: list_all_iff)
  show ?thesis
  proof (cases "f_requester_id f = uid")
    case True
    then have "pr_id p = f_addressee_id f" using p embed_profile_Some [of db uid "f_addressee_id f" p] by simp
    then show ?thesis using True ne by simp
  next
    case False
    then have "pr_id p = f_requester_id f" using p embed_profile_Some [of db uid "f_requester_id f" p] by simp
    then show ?thesis using False by simp
  qed
qed

lemma friendsList_rows:
  "friendsList db u = map (\<lambda>f. embed_profile db u (counterpart u f)) (accepted_rows db u)"
proof -
  have "filter (\<lambda>f. friendships_select_policy u f \<and>
                    (f_requester_id f = u \<or> f_addressee_id f = u) \<and> f_status f = Accepted) (friendships db) =
        accepted_rows db u"
    unfolding accepted_rows_def by (intro filter_cong) (auto simp: friendships_select_policy_def)
  then show ?thesis
    by (simp add: friendsList_def store_select_def counterpart_def if_distrib [of "embed_profile db u"])
qed

lemma friendsList_nth:
  assumes wf: "friendships_wf db" and i: "i < length (accepted_rows db u)"
  shows "\<exists>p. friendsList db u ! i = Some p \<and> p \<in> set (profiles db) \<and>
           pr_id p = counterpart u (accepted_rows db u ! i) \<and> pr_id p \<noteq> u"
proof -
  define f where "f = accepted_rows db u ! i"
  define x where "x = counterpart u f"
  have "f \<in> set (accepted_rows db u)" unfolding f_def using i by (rule nth_mem)
  then have fin: "f \<in> set (friendships db)" and fu: "f_requester_id f = u \<or> f_addressee_id f = u"
    by (auto simp: accepted_rows_def)
  have c: "profile_exists db (f_requester_id f)" "profile_exists db (f_addressee_id f)"
    "f_requester_id f \<noteq> f_addressee_id f"
    using wf fin by (auto simp: friendships_wf_def list_all_iff)
  have xe: "profile_exists db x" using c by (simp add: x_def counterpart_def)
  have xu: "x \<noteq> u" using c(3) fu by (auto simp: x_def counterpart_def)
  obtain p where p: "embed_profile db u x = Some p" using embed_profile_exists [OF xe] by blast
  have "friendsList db u ! i = embed_profile db u x"
    using i by (simp add: friendsList_rows f_def x_def)
  then show ?thesis
    using p embed_profile_Some [OF p] xu by (simp add: f_def [symmetric] x_def [symmetric])
qed

text \<open>
  Claim C4. In a database that meets the constraints of the friendships table, the
  friend list fetched for a viewer has exactly one entry for each accepted friendship
  row the viewer is an endpoint of, in the order of the table, and the entry is the
  profile of the endpoint that is not the viewer. So an accepted row with requester \<open>a\<close>
  and addressee \<open>b\<close> puts the profile of \<open>b\<close> in the friend list of \<open>a\<close> and the profile
  of \<open>a\<close> in the friend list of \<open>b\<close>, and no user's friend list holds the user's own
  profile.
\<close>

theorem listFriends_symmetric:
  assumes wf: "friendships_wf db"
    and row: "f \<in> set (friendships db)" "f_status f = Accepted"
    and ab: "f_requester_id f = a" "f_addressee_id f = b"
  shows "length (fp_friends (out_state (fetchFriends None db v st))) = length (accepted_rows db v) \<and>
         (\<forall>i < length (accepted_rows db v).
            \<exists>p. fp_friends (out_state (fetchFriends None db v st)) ! i = Some p \<and>
                p \<in> set (profiles db) \<and> pr_id p = counterpart v (accepted_rows db v ! i) \<and>
                pr_id p \<noteq> v) \<and>
         (\<exists>pa pb. pa \<in> set (profiles db) \<and> pr_id pa = a \<and> pb \<in> set (profiles db) \<and> pr_id pb = b \<and>
           Some pb \<in> set (fp_friends (out_state (fetchFriends None db a st))) \<and>
           Some pa \<in> set (fp_friends (out_state (fetchFriends None db b st)))) \<and>
         (\<forall>u p. Some p \<in> set (fp_friends (out_state (fetchFriends None db u st))) \<longrightarrow> pr_id p \<noteq> u)"
proof (intro conjI)
  show "length (fp_friends (out_state (fetchFriends None db v st))) = length (accepted_rows db v)"
    by (simp add: fetchFriends_def friendsList_rows)
  show "\<forall>i < length (accepted_rows db v).
            \<exists>p. fp_friends (out_state (fetchFriends None db v st)) ! i = Some p \<and>
                p \<in> set (profiles db) \<and> pr_id p = counterpart v (accepted_rows db v ! i) \<and>
                pr_id p \<noteq> v"
    using friendsList_nth [OF wf] by (simp add: fetchFriends_def)
  have all: "list_all (\<lambda>f. profile_exists db (f_requester_id f) \<and> profile_exists db (f_addressee_id f) \<and>
                    f_requester_id f \<noteq> f_addressee_id f) (friendships db)"
    using wf by (simp add: friendships_wf_def)
  then have f: "profile_exists db a" "profile_exists db b" "a \<noteq> b"
    using row(1) ab by (auto simp: list_all_iff)
  obtain pb where pb: "embed_profile db a b = Some pb" using embed_profile_exists [OF f(2)] by blast
  obtain pa where pa: "embed_profile db b a = Some pa" using embed_profile_exists [OF f(1)] by blast
  have "Some pb \<in> set (friendsList db a)" using friendsList_requester [OF row] ab pb by simp
  moreover have "Some pa \<in> set (friendsList db b)" using friendsList_addressee [OF row] ab pa f(3) by simp
  ultimately show "\<exists>pa pb. pa \<in> set (profiles db) \<and> pr_id pa = a \<and> pb \<in> set (profiles db) \<and> pr_id pb = b \<and>
           Some pb \<in> set (fp_friends (out_state (fetchFriends None db a st))) \<and>
           Some pa \<in> set (fp_friends (out_state (fetchFriends None db b st)))"
    using embed_profile_Some [OF pa] embed_profile_Some [OF pb] by (auto simp: fetchFriends_def)
  have "list_all (\<lambda>f. f_requester_id f \<noteq> f_addressee_id f) (friendships db)"
    using all by (simp add: list_all_iff)
  then show "\<forall>u p. Some p \<in> set (fp_friends (out_state (fetchFriends None db u st))) \<longrightarrow> pr_id p \<noteq> u"
    using friendsList_not_self by (auto simp: fetchFriends_def)
qed

theorem listFriends_symmetric_witness:
  "friendships_wf sample_db \<and>
   fp_friends (out_state (fetchFriends None sample_db ''u-alice'' sample_friends_page)) = [Some bob] \<and>
   Some alice \<in> set (fp_friends (out_state (fetchFriends None sample_db ''u-bob'' sample_friends_page))) \<and>
   Some alice \<notin> set (fp_friends (out_state (fetchFriends None sample_db ''u-alice'' sample_friends_page)))"
proof -
  let ?f = "\<lparr>f_id = ''f1'', f_requester_id = ''u-alice'', f_addressee_id = ''u-bob'', f_status = Accepted\<rparr>"
  let ?L = "fp_friends (out_state (fetchFriends None sample_db ''u-alice'' sample_friends_page))"
  have wf: "friendships_wf sample_db"
    by (simp add: friendships_wf_def sample_db_def profile_exists_def alice_def bob_def carol_def)
  have row: "?f \<in> set (friendships sample_db)" "f_status ?f = Accepted"
    by (simp_all add: sample_db_def)
  have rows: "accepted_rows sample_db ''u-alice'' = [?f]"
    by (simp add: accepted_rows_def sample_db_def)
  note th = listFriends_symmetric [OF wf row refl refl, where st = sample_friends_page
      and v = "''u-alice''"]
  have len: "length ?L = 1" using th rows by simp
  from th rows obtain q where q: "?L ! 0 = Some q" "q \<in> set (profiles sample_db)" "pr_id q = ''u-bob''"
    by (auto simp: counterpart_def)
  have "q = bob" using q(2,3) by (auto simp: sample_db_def alice_def bob_def carol_def)
  then have L: "?L = [Some bob]" using len q(1) by (cases ?L) simp_all
  from th obtain pa where p:
    "pa \<in> set (profiles sample_db)" "pr_id pa = ''u-alice''"
    "Some pa \<in> set (fp_friends (out_state (fetchFriends None sample_db ''u-bob'' sample_friends_page)))"
    by auto
  have "pa = alice" using p(1,2) by (auto simp: sample_db_def alice_def bob_def carol_def)
  moreover have "Some alice \<in> set ?L \<longrightarrow> pr_id alice \<noteq> ''u-alice''"
    using th by blast
  then have "Some alice \<notin> set ?L" by (simp add: alice_def)
  ultimately show ?thesis using wf L p(3) by simp
qed

text \<open>
  The filter of \<^verbatim>\<open>removeFriend\<close> matches a row exactly when its endpoints are the viewer
  and the friend, in either orientation. No policy of the migration admits the DELETE,
  though, so the request removes no row, whatever the database.
\<close>

lemma removeFriend_db: "out_db (removeFriend fault db uid st friendId) = db"
  by (cases fault) (simp_all add: removeFriend_def store_delete_def friendships_delete_policy_def)

lemma removeFriend_filter_iff:
  "removeFriend_filter uid friendId f \<longleftrightarrow>
     {f_requester_id f, f_addressee_id f} = {uid, friendId}"
  by (auto simp: removeFriend_filter_def doubleton_eq_iff)

text \<open>
  Claim C10 asks that after a successful \<^verbatim>\<open>removeFriend\<close> the pair are no longer
  friends. On the sample database Alice removes Bob: the client reports success and
  drops Bob from its list, the accepted row stays in the table, and the next fetch of
  Alice's friends returns Bob again.
\<close>

theorem removeFriend_keeps_friendship:
  "map (removeFriend_filter ''u-alice'' ''u-bob'') (friendships sample_db) = [True, False] \<and>
   out_toasts (removeFriend None sample_db ''u-alice'' sample_friends_page ''u-bob'') =
     [Toast_success ''Friend removed''] \<and>
   fp_friends (out_state (removeFriend None sample_db ''u-alice'' sample_friends_page ''u-bob'')) = [] \<and>
   friendships (out_db (removeFriend None sample_db ''u-alice'' sample_friends_page ''u-bob'')) =
     friendships sample_db \<and>
   friendsList (out_db (removeFriend None sample_db ''u-alice'' sample_friends_page ''u-bob'')) ''u-alice'' =
     [Some bob]"
  by (simp add: removeFriend_def removeFriend_filter_def store_delete_def
        friendships_delete_policy_def sample_db_def sample_friends_page_def friendsList_def
        store_select_def friendships_select_policy_def embed_profile_def
        profiles_select_policy_def alice_def bob_def carol_def)

section \<open>Messages\<close>

text \<open>
  Claim C9. \<^verbatim>\<open>markMessagesAsRead\<close> for a selected friend sets the read flag of exactly
  the unread messages sent by the friend to the viewer: every other row, every other
  field of the rows it marks, the number and order of the rows and all other tables stay
  as they were.
\<close>

theorem markMessagesAsRead_exact:
  "tasks (markMessagesAsRead None db uid (Some friend)) = tasks db \<and>
   profiles (markMessagesAsRead None db uid (Some friend)) = profiles db \<and>
   projects (markMessagesAsRead None db uid (Some friend)) = projects db \<and>
   friendships (markMessagesAsRead None db uid (Some friend)) = friendships db \<and>
   notifications (markMessagesAsRead None db uid (Some friend)) = notifications db \<and>
   length (messages (markMessagesAsRead None db uid (Some friend))) = length (messages db) \<and>
   (\<forall>i < length (messages db).
      messages (markMessagesAsRead None db uid (Some friend)) ! i =
        (if m_sender_id (messages db ! i) = friend \<and> m_receiver_id (messages db ! i) = uid \<and>
            \<not> m_read (messages db ! i)
         then (messages db ! i)\<lparr>m_read := True\<rparr> else messages db ! i))"
  by (simp add: markMessagesAsRead_def store_update_def messages_update_policy_def
        messages_select_policy_def)

theorem markMessagesAsRead_exact_witness:
  "messages (markMessagesAsRead None sample_db ''u-alice'' (Some ''u-bob'')) =
     [(sample_messages ! 0)\<lparr>m_read := True\<rparr>, sample_messages ! 1, sample_messages ! 2,
      sample_messages ! 3]"
proof -
  have len: "length (messages sample_db) = 4" by (simp add: sample_db_def sample_messages_def)
  have m: "messages sample_db = sample_messages" by (simp add: sample_db_def)
  note h = markMessagesAsRead_exact [of sample_db "''u-alice''" "''u-bob''"]
  have l: "length (messages (markMessagesAsRead None sample_db ''u-alice'' (Some ''u-bob''))) = 4"
    using h len by simp
  have i: "\<And>i. i < 4 \<Longrightarrow> messages (markMessagesAsRead None sample_db ''u-alice'' (Some ''u-bob'')) ! i =
        (if m_sender_id (sample_messages ! i) = ''u-bob'' \<and> m_receiver_id (sample_messages ! i) = ''u-alice'' \<and>
            \<not> m_read (sample_messages ! i)
         then (sample_messages ! i)\<lparr>m_read := True\<rparr> else sample_messages ! i)"
    using h len m by simp
  have "messages (markMessagesAsRead None sample_db ''u-alice'' (Some ''u-bob'')) ! 0 = (sample_messages ! 0)\<lparr>m_read := True\<rparr>"
    using i [of 0] by (simp add: sample_messages_def)
  moreover have "messages (markMessagesAsRead None sample_db ''u-alice'' (Some ''u-bob'')) ! 1 = sample_messages ! 1"
    using i [of 1] by (simp add: sample_messages_def)
  moreover have "messages (markMessagesAsRead None sample_db ''u-alice'' (Some ''u-bob'')) ! 2 = sample_messages ! 2"
    using i [of 2] by (simp add: sample_messages_def)
  moreover have "messages (markMessagesAsRead None sample_db ''u-alice'' (Some ''u-bob'')) ! 3 = sample_messages ! 3"
    using i [of 3] by (simp add: sample_messages_def)
  ultimately show ?thesis using l
    by (intro nth_equalityI) (auto simp: less_Suc_eq numeral_eq_Suc)
qed

section \<open>Notifications\<close>

lemma insert_notification_other_tables:
  "tasks (insert_notification fault db uid n) = tasks db"
  "messages (insert_notification fault db uid n) = messages db"
  "friendships (insert_notification fault db uid n) = friendships db"
  "profiles (insert_notification fault db uid n) = profiles db"
  "projects (insert_notification fault db uid n) = projects db"
  by (simp_all add: insert_notification_def store_insert_def split: option.splits)

lemma insert_notification_fault:
  "notifications (insert_notification (Some e) db uid n) = notifications db"
  by (simp add: insert_notification_def store_insert_def)

lemma insert_notification_ok:
  "profile_exists db (n_user_id n) \<Longrightarrow>
   notifications (insert_notification None db uid n) = notifications db @ [n]"
  by (simp add: insert_notification_def store_insert_def notifications_constraints_def
        notifications_insert_check_def)

lemma profile_exists_tasks_update [simp]: "profile_exists (db\<lparr>tasks := rows\<rparr>) = profile_exists db"
  by (simp add: profile_exists_def fun_eq_iff)

text \<open>
  Claim C5. Whenever \<^verbatim>\<open>createTask\<close> creates a task row, it appends exactly one
  notification, addressed to the assignee and of type project, if the assignee is not the
  creator, and leaves the notifications alone if the creator assigned the task to
  themselves.
\<close>

theorem createTask_notifies_assignee:
  assumes "tasks (out_db (createTask None None new_id db uid st)) \<noteq> tasks db"
  shows "notifications (out_db (createTask None None new_id db uid st)) =
     (if nt_assigned_to (pp_newTask st) \<noteq> uid
      then notifications db @
           [\<lparr>n_user_id = nt_assigned_to (pp_newTask st), n_title = ''New Task Assigned'',
             n_message = ''You have been assigned a new task: '' @ nt_title (pp_newTask st),
             n_type = Project, n_read = False\<rparr>]
      else notifications db)"
proof (cases "pp_selectedProject st")
  case None
  then show ?thesis using assms by (simp add: createTask_def)
next
  case (Some pj)
  show ?thesis
  proof (cases "trim (nt_title (pp_newTask st)) = []")
    case True
    then show ?thesis using assms Some by (simp add: createTask_def)
  next
    case False
    define row where "row = \<lparr>t_id = new_id, t_title = nt_title (pp_newTask st),
                       t_description = nt_description (pp_newTask st), t_priority = nt_priority (pp_newTask st),
                       t_status = Pending, t_deadline = nt_deadline (pp_newTask st),
                       t_assigned_to = nt_assigned_to (pp_newTask st),
                       t_project_id = Some (pj_id pj), t_user_id = uid\<rparr>"
    have ok: "tasks_constraints db row"
      using assms Some False
      by (auto simp: createTask_def Let_def store_insert_def row_def split: if_splits)
    then have pe: "profile_exists db (nt_assigned_to (pp_newTask st))"
      by (simp add: tasks_constraints_def row_def)
    have ins: "store_insert None (tasks_constraints db row) (tasks_insert_check uid row) row (tasks db)
                 = Inr (tasks db @ [row])"
      using ok by (simp add: store_insert_def tasks_insert_check_def row_def)
    show ?thesis using Some False ins pe
      by (simp add: createTask_def Let_def row_def [symmetric] insert_notification_ok)
  qed
qed

theorem createTask_notifies_assignee_witness:
  "tasks (out_db (createTask None None ''t2'' sample_db ''u-alice'' sample_projects_page)) \<noteq> tasks sample_db \<and>
   notifications (out_db (createTask None None ''t2'' sample_db ''u-alice'' sample_projects_page)) =
     [\<lparr>n_user_id = ''u-bob'', n_title = ''New Task Assigned'',
       n_message = ''You have been assigned a new task: Review draft'', n_type = Project, n_read = False\<rparr>] \<and>
   tasks (out_db (createTask None None ''t3'' sample_db ''u-alice''
      (sample_projects_page\<lparr>pp_newTask := (pp_newTask sample_projects_page)\<lparr>nt_assigned_to := ''u-alice''\<rparr>\<rparr>))) \<noteq> tasks sample_db \<and>
   notifications (out_db (createTask None None ''t3'' sample_db ''u-alice''
      (sample_projects_page\<lparr>pp_newTask := (pp_newTask sample_projects_page)\<lparr>nt_assigned_to := ''u-alice''\<rparr>\<rparr>))) = []"
proof -
  have a: "tasks (out_db (createTask None None ''t2'' sample_db ''u-alice'' sample_projects_page)) \<noteq> tasks sample_db"
    by code_simp
  have b: "tasks (out_db (createTask None None ''t3'' sample_db ''u-alice''
      (sample_projects_page\<lparr>pp_newTask := (pp_newTask sample_projects_page)\<lparr>nt_assigned_to := ''u-alice''\<rparr>\<rparr>))) \<noteq> tasks sample_db"
    by code_simp
  show ?thesis
    using a b createTask_notifies_assignee [OF a] createTask_notifies_assignee [OF b]
    by (simp add: sample_projects_page_def sample_db_def)
qed

lemma sendMessage_notification_failure:
  assumes "cp_selectedFriend st = Some friend" "trim (cp_newMessage st) \<noteq> []" "\<not> cp_sending st"
    and "profile_exists db (au_id user)" "profile_exists db friend" "au_id user \<noteq> friend"
  shows "messages (out_db (sendMessage None (Some e) new_id now db user st)) =
           messages db @ [\<lparr>m_id = new_id, m_sender_id = au_id user, m_receiver_id = friend,
              m_content = trim (cp_newMessage st), m_read = False, m_created_at = now\<rparr>] \<and>
         notifications (out_db (sendMessage None (Some e) new_id now db user st)) = notifications db \<and>
         out_toasts (sendMessage None (Some e) new_id now db user st) = [] \<and>
         cp_messages (out_state (sendMessage None (Some e) new_id now db user st)) =
           cp_messages st @ [\<lparr>m_id = new_id, m_sender_id = au_id user, m_receiver_id = friend,
              m_content = trim (cp_newMessage st), m_read = False, m_created_at = now\<rparr>]"
  using assms
  by (simp add: sendMessage_def Let_def store_insert_def messages_constraints_def
        messages_insert_check_def insert_notification_other_tables insert_notification_fault)

lemma sendFriendRequest_notification_failure:
  assumes "profile_exists db uid" "profile_exists db userId" "uid \<noteq> userId"
    and "(uid, userId) \<notin> (\<lambda>g. (f_requester_id g, f_addressee_id g)) ` set (friendships db)"
  shows "friendships (out_db (sendFriendRequest None (Some e) new_id db uid st userId)) =
           friendships db @ [\<lparr>f_id = new_id, f_requester_id = uid, f_addressee_id = userId,
              f_status = Requested\<rparr>] \<and>
         notifications (out_db (sendFriendRequest None (Some e) new_id db uid st userId)) = notifications db \<and>
         out_toasts (sendFriendRequest None (Some e) new_id db uid st userId) =
           [Toast_success ''Friend request sent!'']"
  using assms
  by (simp add: sendFriendRequest_def Let_def store_insert_def friendships_constraints_def
        friendships_insert_check_def insert_notification_other_tables insert_notification_fault)

lemma createTask_notification_failure:
  assumes "pp_selectedProject st = Some pj" "trim (nt_title (pp_newTask st)) \<noteq> []"
    and "profile_exists db (nt_assigned_to (pp_newTask st))" "profile_exists db uid"
    and "pj_id pj \<in> pj_id ` set (projects db)"
  shows "tasks (out_db (createTask None (Some e) new_id db uid st)) =
           tasks db @ [\<lparr>t_id = new_id, t_title = nt_title (pp_newTask st),
              t_description = nt_description (pp_newTask st), t_priority = nt_priority (pp_newTask st),
              t_status = Pending, t_deadline = nt_deadline (pp_newTask st),
              t_assigned_to = nt_assigned_to (pp_newTask st),
              t_project_id = Some (pj_id pj), t_user_id = uid\<rparr>] \<and>
         notifications (out_db (createTask None (Some e) new_id db uid st)) = notifications db \<and>
         out_toasts (createTask None (Some e) new_id db uid st) =
           [Toast_success ''Task created successfully!'']"
  using assms
  by (simp add: createTask_def Let_def store_insert_def tasks_constraints_def
        tasks_insert_check_def insert_notification_other_tables insert_notification_fault)

text \<open>
  Claim C7. When the triggering insert of \<^verbatim>\<open>sendMessage\<close>, \<^verbatim>\<open>sendFriendRequest\<close> or
  \<^verbatim>\<open>createTask\<close> commits and the notification insert after it fails with any error,
  the inserted message, friendship or task row is in its table, no notification is
  added, no error is reported, and the operation ends as a success: the message joins
  the conversation on screen, the success toast of the other two is shown.
\<close>

theorem notification_failure_is_not_fatal:
  "(cp_selectedFriend cs = Some friend \<and> trim (cp_newMessage cs) \<noteq> [] \<and> \<not> cp_sending cs \<and>
    profile_exists db (au_id user) \<and> profile_exists db friend \<and> au_id user \<noteq> friend \<longrightarrow>
      messages (out_db (sendMessage None (Some e) new_id now db user cs)) =
        messages db @ [\<lparr>m_id = new_id, m_sender_id = au_id user, m_receiver_id = friend,
           m_content = trim (cp_newMessage cs), m_read = False, m_created_at = now\<rparr>] \<and>
      notifications (out_db (sendMessage None (Some e) new_id now db user cs)) = notifications db \<and>
      out_toasts (sendMessage None (Some e) new_id now db user cs) = [] \<and>
      cp_messages (out_state (sendMessage None (Some e) new_id now db user cs)) =
        cp_messages cs @ [\<lparr>m_id = new_id, m_sender_id = au_id user, m_receiver_id = friend,
           m_content = trim (cp_newMessage cs), m_read = False, m_created_at = now\<rparr>]) \<and>
   (profile_exists db uid \<and> profile_exists db userId \<and> uid \<noteq> userId \<and>
    (uid, userId) \<notin> (\<lambda>g. (f_requester_id g, f_addressee_id g)) ` set (friendships db) \<longrightarrow>
      friendships (out_db (sendFriendRequest None (Some e) new_id db uid fs userId)) =
        friendships db @ [\<lparr>f_id = new_id, f_requester_id = uid, f_addressee_id = userId,
           f_status = Requested\<rparr>] \<and>
      notifications (out_db (sendFriendRequest None (Some e) new_id db uid fs userId)) = notifications db \<and>
      out_toasts (sendFriendRequest None (Some e) new_id db uid fs userId) =
        [Toast_success ''Friend request sent!'']) \<and>
   (pp_selectedProject ps = Some pj \<and> trim (nt_title (pp_newTask ps)) \<noteq> [] \<and>
    profile_exists db (nt_assigned_to (pp_newTask ps)) \<and> profile_exists db uid \<and>
    pj_id pj \<in> pj_id ` set (projects db) \<longrightarrow>
      tasks (out_db (createTask None (Some e) new_id db uid ps)) =
        tasks db @ [\<lparr>t_id = new_id, t_title = nt_title (pp_newTask ps),
           t_description = nt_description (pp_newTask ps), t_priority = nt_priority (pp_newTask ps),
           t_status = Pending, t_deadline = nt_deadline (pp_newTask ps),
           t_assigned_to = nt_assigned_to (pp_newTask ps),
           t_project_id = Some (pj_id pj), t_user_id = uid\<rparr>] \<and>
      notifications (out_db (createTask None (Some e) new_id db uid ps)) = notifications db \<and>
      out_toasts (createTask None (Some e) new_id db uid ps) =
        [Toast_success ''Task created successfully!''])"
proof (intro conjI impI)
  assume "cp_selectedFriend cs = Some friend \<and> trim (cp_newMessage cs) \<noteq> [] \<and> \<not> cp_sending cs \<and>
    profile_exists db (au_id user) \<and> profile_exists db friend \<and> au_id user \<noteq> friend"
  then have a: "cp_selectedFriend cs = Some friend" "trim (cp_newMessage cs) \<noteq> []" "\<not> cp_sending cs"
    "profile_exists db (au_id user)" "profile_exists db friend" "au_id user \<noteq> friend"
    by simp_all
  note r = sendMessage_notification_failure [OF a, of e new_id now]
  show "messages (out_db (sendMessage None (Some e) new_id now db user cs)) =
        messages db @ [\<lparr>m_id = new_id, m_sender_id = au_id user, m_receiver_id = friend,
           m_content = trim (cp_newMessage cs), m_read = False, m_created_at = now\<rparr>]"
    using r by simp
  show "notifications (out_db (sendMessage None (Some e) new_id now db user cs)) = notifications db"
    using r by simp
  show "out_toasts (sendMessage None (Some e) new_id now db user cs) = []"
    using r by simp
  show "cp_messages (out_state (sendMessage None (Some e) new_id now db user cs)) =
        cp_messages cs @ [\<lparr>m_id = new_id, m_sender_id = au_id user, m_receiver_id = friend,
           m_content = trim (cp_newMessage cs), m_read = False, m_created_at = now\<rparr>]"
    using r by simp
next
  assume "profile_exists db uid \<and> profile_exists db userId \<and> uid \<noteq> userId \<and>
    (uid, userId) \<notin> (\<lambda>g. (f_requester_id g, f_addressee_id g)) ` set (friendships db)"
  then have a: "profile_exists db uid" "profile_exists db userId" "uid \<noteq> userId"
    "(uid, userId) \<notin> (\<lambda>g. (f_requester_id g, f_addressee_id g)) ` set (friendships db)"
    by simp_all
  note r = sendFriendRequest_notification_failure [OF a, of e new_id fs]
  show "friendships (out_db (sendFriendRequest None (Some e) new_id db uid fs userId)) =
        friendships db @ [\<lparr>f_id = new_id, f_requester_id = uid, f_addressee_id = userId,
           f_status = Requested\<rparr>]"
    using r by simp
  show "notifications (out_db (sendFriendRequest None (Some e) new_id db uid fs userId)) = notifications db"
    using r by simp
  show "out_toasts (sendFriendRequest None (Some e) new_id db uid fs userId) =
        [Toast_success ''Friend request sent!'']"
    using r by simp
next
  assume "pp_selectedProject ps = Some pj \<and> trim (nt_title (pp_newTask ps)) \<noteq> [] \<and>
    profile_exists db (nt_assigned_to (pp_newTask ps)) \<and> profile_exists db uid \<and>
    pj_id pj \<in> pj_id ` set (projects db)"
  then have a: "pp_selectedProject ps = Some pj" "trim (nt_title (pp_newTask ps)) \<noteq> []"
    "profile_exists db (nt_assigned_to (pp_newTask ps))" "profile_exists db uid"
    "pj_id pj \<in> pj_id ` set (projects db)"
    by simp_all
  note r = createTask_notification_failure [OF a, of e new_id]
  show "tasks (out_db (createTask None (Some e) new_id db uid ps)) =
        tasks db @ [\<lparr>t_id = new_id, t_title = nt_title (pp_newTask ps),
           t_description = nt_description (pp_newTask ps), t_priority = nt_priority (pp_newTask ps),
           t_status = Pending, t_deadline = nt_deadline (pp_newTask ps),
           t_assigned_to = nt_assigned_to (pp_newTask ps),
           t_project_id = Some (pj_id pj), t_user_id = uid\<rparr>]"
    using r by simp
  show "notifications (out_db (createTask None (Some e) new_id db uid ps)) = notifications db"
    using r by simp
  show "out_toasts (createTask None (Some e) new_id db uid ps) =
        [Toast_success ''Task created successfully!'']"
    using r by simp
qed

theorem notification_failure_is_not_fatal_witness:
  "messages (out_db (sendMessage None (Some TransportError) ''m5'' 1753142600000 sample_db alice_user
      sample_chat_page)) =
     sample_messages @ [\<lparr>m_id = ''m5'', m_sender_id = ''u-alice'', m_receiver_id = ''u-bob'',
        m_content = ''see you'', m_read = False, m_created_at = 1753142600000\<rparr>] \<and>
   out_toasts (sendMessage None (Some TransportError) ''m5'' 1753142600000 sample_db alice_user
      sample_chat_page) = [] \<and>
   friendships (out_db (sendFriendRequest None (Some TransportError) ''f3'' sample_db ''u-bob''
      sample_friends_page ''u-carol'')) =
     friendships sample_db @ [\<lparr>f_id = ''f3'', f_requester_id = ''u-bob'', f_addressee_id = ''u-carol'',
        f_status = Requested\<rparr>] \<and>
   out_toasts (sendFriendRequest None (Some TransportError) ''f3'' sample_db ''u-bob''
      sample_friends_page ''u-carol'') = [Toast_success ''Friend request sent!''] \<and>
   tasks (out_db (createTask None (Some TransportError) ''t2'' sample_db ''u-alice'' sample_projects_page)) =
     [sample_task ''t1'' In_progress,
      (sample_task ''t2'' Pending)\<lparr>t_title := ''Review draft'', t_priority := High,
         t_assigned_to := ''u-bob''\<rparr>] \<and>
   out_toasts (createTask None (Some TransportError) ''t2'' sample_db ''u-alice'' sample_projects_page) =
     [Toast_success ''Task created successfully!''] \<and>
   notifications (out_db (createTask None (Some TransportError) ''t2'' sample_db ''u-alice''
      sample_projects_page)) = []"
proof -
  have t: "trim '' see you '' = ''see you''" by code_simp
  have t': "trim ''Review draft'' = ''Review draft''" by code_simp
  have pe: "profile_exists sample_db ''u-alice''" "profile_exists sample_db ''u-bob''"
    "profile_exists sample_db ''u-carol''"
    by (simp_all add: profile_exists_def sample_db_def alice_def bob_def carol_def)
  note th = notification_failure_is_not_fatal [where db = sample_db and e = TransportError
      and cs = sample_chat_page and friend = "''u-bob''" and user = alice_user and new_id = "''m5''"
      and now = 1753142600000]
  note th2 = notification_failure_is_not_fatal [where db = sample_db and e = TransportError
      and uid = "''u-bob''" and userId = "''u-carol''" and fs = sample_friends_page and new_id = "''f3''"]
  note th3 = notification_failure_is_not_fatal [where db = sample_db and e = TransportError
      and uid = "''u-alice''" and ps = sample_projects_page and pj = apollo and new_id = "''t2''"]
  have 1: "messages (out_db (sendMessage None (Some TransportError) ''m5'' 1753142600000 sample_db alice_user
      sample_chat_page)) =
     sample_messages @ [\<lparr>m_id = ''m5'', m_sender_id = ''u-alice'', m_receiver_id = ''u-bob'',
        m_content = ''see you'', m_read = False, m_created_at = 1753142600000\<rparr>] \<and>
   out_toasts (sendMessage None (Some TransportError) ''m5'' 1753142600000 sample_db alice_user
      sample_chat_page) = []"
    using th t pe by (simp add: sample_chat_page_def alice_user_def sample_db_def)
  have 2: "friendships (out_db (sendFriendRequest None (Some TransportError) ''f3'' sample_db ''u-bob''
      sample_friends_page ''u-carol'')) =
     friendships sample_db @ [\<lparr>f_id = ''f3'', f_requester_id = ''u-bob'', f_addressee_id = ''u-carol'',
        f_status = Requested\<rparr>] \<and>
   out_toasts (sendFriendRequest None (Some TransportError) ''f3'' sample_db ''u-bob''
      sample_friends_page ''u-carol'') = [Toast_success ''Friend request sent!'']"
    using th2 pe by (simp add: sample_db_def)
  have 3: "tasks (out_db (createTask None (Some TransportError) ''t2'' sample_db ''u-alice'' sample_projects_page)) =
     [sample_task ''t1'' In_progress,
      (sample_task ''t2'' Pending)\<lparr>t_title := ''Review draft'', t_priority := High,
         t_assigned_to := ''u-bob''\<rparr>] \<and>
   out_toasts (createTask None (Some TransportError) ''t2'' sample_db ''u-alice'' sample_projects_page) =
     [Toast_success ''Task created successfully!''] \<and>
   notifications (out_db (createTask None (Some TransportError) ''t2'' sample_db ''u-alice''
      sample_projects_page)) = []"
    using th3 t' pe by (simp add: sample_projects_page_def sample_db_def apollo_def sample_task_def)
  show ?thesis using 1 2 3 by simp
qed

section \<open>Sign-in and the profile row\<close>

lemma select_profile_missing:
  assumes "x \<notin> pr_id ` set (profiles db)"
  shows "select_profile None db uid x = Inl NotFound"
proof -
  have "filter (\<lambda>p. pr_id p = x) (profiles db) = []" using assms by (auto simp: filter_empty_conv)
  then show ?thesis
    by (simp add: select_profile_def store_select_def profiles_select_policy_def single_def)
qed

lemma select_profile_present:
  assumes "x \<notin> pr_id ` set rows" "pr_id row = x"
  shows "select_profile None (db\<lparr>profiles := rows @ [row]\<rparr>) uid x = Inr row"
proof -
  have "filter (\<lambda>p. pr_id p = x) rows = []" using assms(1) by (auto simp: filter_empty_conv)
  then show ?thesis using assms(2)
    by (simp add: select_profile_def store_select_def profiles_select_policy_def single_def)
qed

lemma onAuthStateChange_db_profile_present:
  assumes "select_profile None db (au_id u) (au_id u) = Inr row"
  shows "out_db (onAuthStateChange None None db st ev (Some u)) = db"
  using assms by (cases ev) (simp_all add: onAuthStateChange_def fetchUserProfile_def Let_def)

text \<open>
  Claim C6, as the code has it. A sign-in of an identity that has no profile row, has an
  email address, and whose username is not taken creates exactly one profile row. Its
  username is the username of the identity's metadata when there is a non-empty one,
  and otherwise \<open>user-\<close> followed by the first eight characters of the identity's id.
  No later auth event for that identity adds another row.
\<close>

theorem first_sign_in_creates_profile:
  assumes "au_id u \<notin> pr_id ` set (profiles db)"
    and "au_email u = Some email" "email \<noteq> []"
    and "default_username u \<notin> pr_username ` set (profiles db)"
  shows "out_db (onAuthStateChange None None db st SIGNED_IN (Some u)) =
           db\<lparr>profiles := profiles db @
                 [\<lparr>pr_id = au_id u,
                   pr_username =
                     (case au_username u of
                        Some n \<Rightarrow> if n = [] then ''user-'' @ take 8 (au_id u) else n
                      | None \<Rightarrow> ''user-'' @ take 8 (au_id u)),
                   pr_email = email\<rparr>]\<rparr> \<and>
         (\<forall>ev st'. out_db (onAuthStateChange None None
                      (out_db (onAuthStateChange None None db st SIGNED_IN (Some u))) st' ev (Some u)) =
                    out_db (onAuthStateChange None None db st SIGNED_IN (Some u)))"
proof -
  let ?row = "\<lparr>pr_id = au_id u, pr_username = default_username u, pr_email = email\<rparr>"
  have 1: "out_db (onAuthStateChange None None db st SIGNED_IN (Some u)) =
             db\<lparr>profiles := profiles db @ [?row]\<rparr>"
    using assms select_profile_missing [OF assms(1), of "au_id u"]
    by (simp add: onAuthStateChange_def fetchUserProfile_def createProfile_def Let_def
          store_insert_def profiles_constraints_def profiles_insert_check_def)
  have 2: "default_username u =
           (case au_username u of
              Some n \<Rightarrow> if n = [] then ''user-'' @ take 8 (au_id u) else n
            | None \<Rightarrow> ''user-'' @ take 8 (au_id u))"
    by (auto simp: default_username_def split: option.splits)
  have "select_profile None (db\<lparr>profiles := profiles db @ [?row]\<rparr>) (au_id u) (au_id u) = Inr ?row"
    using assms(1) by (intro select_profile_present) simp_all
  then have 3: "\<And>ev st'. out_db (onAuthStateChange None None (db\<lparr>profiles := profiles db @ [?row]\<rparr>) st' ev (Some u))
       = db\<lparr>profiles := profiles db @ [?row]\<rparr>"
    by (rule onAuthStateChange_db_profile_present)
  show ?thesis using 1 2 3 by simp
qed

theorem first_sign_in_creates_profile_witness:
  "profiles (out_db (onAuthStateChange None None sample_db signed_out SIGNED_IN (Some erin_user))) =
     profiles sample_db @
       [\<lparr>pr_id = ''7c9e6679-7425'', pr_username = ''user-7c9e6679'', pr_email = ''erin@example.org''\<rparr>] \<and>
   out_db (onAuthStateChange None None
      (out_db (onAuthStateChange None None sample_db signed_out SIGNED_IN (Some erin_user)))
      signed_out INITIAL_SESSION (Some erin_user)) =
     out_db (onAuthStateChange None None sample_db signed_out SIGNED_IN (Some erin_user))"
proof -
  have 1: "au_id erin_user \<notin> pr_id ` set (profiles sample_db)"
    by (simp add: erin_user_def sample_db_def alice_def bob_def carol_def)
  have 2: "au_email erin_user = Some ''erin@example.org''" "''erin@example.org'' \<noteq> []"
    by (simp_all add: erin_user_def)
  have 3: "default_username erin_user \<notin> pr_username ` set (profiles sample_db)"
    by (simp add: default_username_def erin_user_def sample_db_def alice_def bob_def carol_def)
  note th = first_sign_in_creates_profile [OF 1 2 3, of signed_out]
  have "profiles (out_db (onAuthStateChange None None sample_db signed_out SIGNED_IN (Some erin_user))) =
     profiles sample_db @
       [\<lparr>pr_id = ''7c9e6679-7425'', pr_username = ''user-7c9e6679'', pr_email = ''erin@example.org''\<rparr>]"
    using th [THEN conjunct1] by (simp add: erin_user_def)
  moreover have "out_db (onAuthStateChange None None
      (out_db (onAuthStateChange None None sample_db signed_out SIGNED_IN (Some erin_user)))
      signed_out INITIAL_SESSION (Some erin_user)) =
     out_db (onAuthStateChange None None sample_db signed_out SIGNED_IN (Some erin_user))"
    using th [THEN conjunct2] by blast
  ultimately show ?thesis by (rule conjI)
qed

text \<open>
  Dave has no profile row and signed up with the username \<open>dave\<close>: the row his first
  sign-in creates is named \<open>dave\<close>, not \<open>user-0f8fad5b\<close>.
\<close>

theorem sign_in_username_from_metadata:
  "au_id dave_user \<notin> pr_id ` set (profiles sample_db) \<and>
   profiles (out_db (onAuthStateChange None None sample_db signed_out SIGNED_IN (Some dave_user))) =
     profiles sample_db @
       [\<lparr>pr_id = ''0f8fad5b-d9cb'', pr_username = ''dave'', pr_email = ''dave@example.org''\<rparr>] \<and>
   ''user-'' @ take 8 (au_id dave_user) = ''user-0f8fad5b'' \<and>
   ''dave'' \<noteq> ''user-'' @ take 8 (au_id dave_user)"
  by code_simp

end
